theory Spec2Isabelle
  imports Complex_Main
begin

section \<open>JavaScript values and strings\<close>

text \<open>
  The import validator of the concept application (\<^verbatim>\<open>validateJsonContent\<close> in
  \<^verbatim>\<open>src/components/concept-view.tsx\<close>, repeated line by line as \<^verbatim>\<open>validateJson\<close> in
  the JSON validator component) probes a value produced by \<^verbatim>\<open>JSON.parse\<close>. Such a value
  is null, a boolean, a number, a string, an array or an object.

  A number is an IEEE double; \<^verbatim>\<open>JSON.parse\<close> yields no NaN, so a number is a finite
  rational or one of the two infinities (\<^verbatim>\<open>1e999\<close>). The code only asks for the type
  of a number and whether it is zero.

  A string is a sequence of 8-bit characters, read as the code units U+0000 to U+00FF.

  An object is the list of its own enumerable properties in the order of
  \<^verbatim>\<open>Object.keys\<close>; \<^verbatim>\<open>JSON.parse\<close> yields distinct keys.
\<close>

datatype jsnum = Finite rat | PosInfinity | NegInfinity

datatype json =
    JNull
  | JBool bool
  | JNumber jsnum
  | JString string
  | JArray "json list"
  | JObject "(string \<times> json) list"

text \<open>Decimal rendering of an index, as the template literals do.\<close>

fun showNat :: "nat \<Rightarrow> string" where
  "showNat n =
     (if n < 10 then [''0123456789'' ! n]
      else showNat (n div 10) @ [''0123456789'' ! (n mod 10)])"

text \<open>
  \<^verbatim>\<open>String.prototype.trim\<close> removes white space and line terminators from both ends;
  below U+0100 these are tab, line feed, vertical tab, form feed, carriage return,
  space and no-break space.
\<close>

definition isWhiteSpace :: "char \<Rightarrow> bool" where
  "isWhiteSpace c = ((of_char c :: nat) \<in> {9, 10, 11, 12, 13, 32, 160})"

definition trim :: "string \<Rightarrow> string" where
  "trim s = rev (dropWhile isWhiteSpace (rev (dropWhile isWhiteSpace s)))"

text \<open>
  \<^verbatim>\<open>String.prototype.toLowerCase\<close> below U+0100: the letters A to Z and the letters
  U+00C0 to U+00DE, the multiplication sign U+00D7 apart, move up by 32.
\<close>

definition toLowerChar :: "char \<Rightarrow> char" where
  "toLowerChar c =
     (let n = (of_char c :: nat)
      in if (65 \<le> n \<and> n \<le> 90) \<or> (192 \<le> n \<and> n \<le> 222 \<and> n \<noteq> 215)
         then char_of (n + 32) else c)"

definition toLowerCase :: "string \<Rightarrow> string" where
  "toLowerCase s = map toLowerChar s"

text \<open>\<^verbatim>\<open>String.prototype.includes\<close>: the argument occurs as a contiguous run.\<close>

fun startsWith :: "string \<Rightarrow> string \<Rightarrow> bool" where
  "startsWith s [] = True"
| "startsWith [] (p # ps) = False"
| "startsWith (c # cs) (p # ps) = (c = p \<and> startsWith cs ps)"

fun includesStr :: "string \<Rightarrow> string \<Rightarrow> bool" where
  "includesStr [] sub = (sub = [])"
| "includesStr (c # cs) sub = (startsWith (c # cs) sub \<or> includesStr cs sub)"

text \<open>
  Reading a property yields \<^verbatim>\<open>undefined\<close> (\<open>None\<close>) when the property is absent.
  \<open>getField\<close> is used with the names of concept fields only; none of them is an index
  or a property that strings, numbers, booleans or arrays inherit, so a primitive
  yields \<^verbatim>\<open>undefined\<close> and an array offers its indices alone. Reading a property of
  \<^verbatim>\<open>null\<close> throws; \<open>getField\<close> is not applied to \<^verbatim>\<open>null\<close> (see \<open>readField\<close> below for
  the route, which does).
\<close>

fun ownProps :: "json \<Rightarrow> (string \<times> json) list" where
  "ownProps (JObject kvs) = kvs"
| "ownProps (JArray xs) = zip (map showNat [0..<length xs]) xs"
| "ownProps v = []"

definition getField :: "json \<Rightarrow> string \<Rightarrow> json option" where
  "getField v k = map_of (ownProps v) k"

text \<open>\<^verbatim>\<open>Object.keys(concept)\<close>, applied to objects and arrays only.\<close>

definition objectKeys :: "json \<Rightarrow> string list" where
  "objectKeys v = map fst (ownProps v)"

text \<open>
  Truthiness: \<^verbatim>\<open>undefined\<close>, \<^verbatim>\<open>null\<close>, \<^verbatim>\<open>false\<close>, zero and the empty string are
  falsy, every other value is truthy.
\<close>

fun truthy :: "json option \<Rightarrow> bool" where
  "truthy None = False"
| "truthy (Some JNull) = False"
| "truthy (Some (JBool b)) = b"
| "truthy (Some (JNumber n)) = (n \<noteq> Finite 0)"
| "truthy (Some (JString s)) = (s \<noteq> [])"
| "truthy (Some (JArray xs)) = True"
| "truthy (Some (JObject kvs)) = True"

fun isString :: "json option \<Rightarrow> bool" where
  "isString (Some (JString s)) = True"
| "isString v = False"

fun isNumber :: "json option \<Rightarrow> bool" where
  "isNumber (Some (JNumber n)) = True"
| "isNumber v = False"

text \<open>\<^verbatim>\<open>!concept || typeof concept !== "object"\<close> is false for objects and arrays only.\<close>

fun isObjectLike :: "json \<Rightarrow> bool" where
  "isObjectLike (JObject kvs) = True"
| "isObjectLike (JArray xs) = True"
| "isObjectLike v = False"

section \<open>The data model\<close>

text \<open>
  \<^verbatim>\<open>src/types/concept.ts\<close>, interface \<^verbatim>\<open>Concept\<close>. A date built by the validator is
  either \<^verbatim>\<open>new Date(v)\<close> for a value \<open>v\<close> of the input, kept as it is written, or
  \<^verbatim>\<open>new Date()\<close>, the reading of the clock at that moment.
\<close>

datatype jsdate = DateOf json | DateNow int

record concept =
  c_id :: "string option"
  c_topicID :: jsnum
  c_topic :: string
  c_title :: string
  c_definition :: string
  c_detailedExplanation :: string
  c_whenToUse :: string
  c_whyNeed :: string
  c_codeExample :: string
  c_keyword :: string
  c_differences :: string
  c_createdAt :: "jsdate option"
  c_updatedAt :: "jsdate option"

datatype level = Error | Warning | Info

record validation_error =
  e_type :: level
  e_message :: string
  e_line :: "nat option"
  e_field :: "string option"
  e_conceptIndex :: "nat option"

record validation_result =
  isValid :: bool
  errors :: "validation_error list"
  validConcepts :: "concept list"
  totalConcepts :: nat

text \<open>A thrown \<^verbatim>\<open>Error\<close>, by its message.\<close>

datatype js_error = Thrown string

fun errorMessageOf :: "js_error \<Rightarrow> string" where
  "errorMessageOf (Thrown m) = m"

section \<open>The validator\<close>

text \<open>
  Step 1, the handler of a parse failure. The message of the \<^verbatim>\<open>SyntaxError\<close> is
  searched with \<^verbatim>\<open>/line (\d+)/i\<close>: the leftmost place where the five characters
  \<^verbatim>\<open>line \<close> (in either case) are followed by a digit; the group is the longest run
  of digits there, and \<^verbatim>\<open>Number.parseInt\<close> reads it (exactly, for the line numbers an
  engine reports).
\<close>

definition isDigit :: "char \<Rightarrow> bool" where
  "isDigit c = (48 \<le> (of_char c :: nat) \<and> (of_char c :: nat) \<le> 57)"

fun lineMatch :: "string \<Rightarrow> string option" where
  "lineMatch [] = None"
| "lineMatch (c # cs) =
     (if toLowerCase (take 5 (c # cs)) = ''line '' \<and> takeWhile isDigit (drop 5 (c # cs)) \<noteq> []
      then Some (takeWhile isDigit (drop 5 (c # cs)))
      else lineMatch cs)"

definition parseInt :: "string \<Rightarrow> nat" where
  "parseInt ds = foldl (\<lambda>acc d. 10 * acc + ((of_char d :: nat) - 48)) 0 ds"

definition parseFailure :: "string \<Rightarrow> validation_error" where
  "parseFailure errorMessage =
     \<lparr> e_type = Error,
       e_message = ''JSON parsing failed: '' @ errorMessage,
       e_line = map_option parseInt (lineMatch errorMessage),
       e_field = None,
       e_conceptIndex = None \<rparr>"

definition notAnArray :: validation_error where
  "notAnArray =
     \<lparr> e_type = Error,
       e_message = ''Root element must be an array of concepts'',
       e_line = None, e_field = None, e_conceptIndex = None \<rparr>"

definition noConcepts :: validation_error where
  "noConcepts =
     \<lparr> e_type = Warning,
       e_message = ''The file contains no concepts to import'',
       e_line = None, e_field = None, e_conceptIndex = None \<rparr>"

text \<open>Step 3, the diagnostics of one record.\<close>

definition requiredFields :: "string list" where
  "requiredFields = [''title'', ''topic'', ''definition'', ''keyword'']"

definition optionalFields :: "string list" where
  "optionalFields =
     [''topicID'', ''detailedExplanation'', ''whenToUse'', ''whyNeed'', ''codeExample'',
      ''differences'', ''createdAt'', ''updatedAt'']"

definition allValidFields :: "string list" where
  "allValidFields = requiredFields @ optionalFields"

definition notAnObject :: "nat \<Rightarrow> validation_error" where
  "notAnObject index =
     \<lparr> e_type = Error,
       e_message = ''Concept at position '' @ showNat (index + 1) @ '' is not a valid object'',
       e_line = None, e_field = None, e_conceptIndex = Some index \<rparr>"

definition missingField :: "nat \<Rightarrow> string \<Rightarrow> validation_error" where
  \<open>missingField index field =
     \<lparr> e_type = Error,
       e_message = ''Missing required field: "'' @ field @ ''"'',
       e_line = None, e_field = Some field, e_conceptIndex = Some index \<rparr>\<close>

definition mustBeString :: "nat \<Rightarrow> string \<Rightarrow> validation_error" where
  \<open>mustBeString index field =
     \<lparr> e_type = Error,
       e_message = ''Field "'' @ field @ ''" must be a string'',
       e_line = None, e_field = Some field, e_conceptIndex = Some index \<rparr>\<close>

definition cannotBeEmpty :: "nat \<Rightarrow> string \<Rightarrow> validation_error" where
  \<open>cannotBeEmpty index field =
     \<lparr> e_type = Error,
       e_message = ''Field "'' @ field @ ''" cannot be empty'',
       e_line = None, e_field = Some field, e_conceptIndex = Some index \<rparr>\<close>

definition unknownField :: "nat \<Rightarrow> string \<Rightarrow> validation_error" where
  \<open>unknownField index key =
     \<lparr> e_type = Warning,
       e_message = ''Unknown field "'' @ key @ ''" will be ignored'',
       e_line = None, e_field = Some key, e_conceptIndex = Some index \<rparr>\<close>

definition duplicateTitle :: "nat \<Rightarrow> string \<Rightarrow> validation_error" where
  \<open>duplicateTitle index title =
     \<lparr> e_type = Warning,
       e_message = ''Duplicate title "'' @ title
                   @ ''" - only the first occurrence will be imported'',
       e_line = None, e_field = Some ''title'', e_conceptIndex = Some index \<rparr>\<close>

definition topicIDNotNumber :: "nat \<Rightarrow> validation_error" where
  \<open>topicIDNotNumber index =
     \<lparr> e_type = Error,
       e_message = ''Field "topicID" must be a number'',
       e_line = None, e_field = Some ''topicID'', e_conceptIndex = Some index \<rparr>\<close>

text \<open>The body of \<^verbatim>\<open>requiredFields.forEach\<close> for one field: at most one diagnostic.\<close>

definition checkRequired :: "nat \<Rightarrow> json \<Rightarrow> string \<Rightarrow> validation_error list" where
  "checkRequired index concept field =
     (if \<not> truthy (getField concept field) then [missingField index field]
      else if \<not> isString (getField concept field) then [mustBeString index field]
      else (case getField concept field of
              Some (JString s) \<Rightarrow> (if trim s = [] then [cannotBeEmpty index field] else [])
            | _ \<Rightarrow> []))"

definition checkUnknown :: "nat \<Rightarrow> json \<Rightarrow> validation_error list" where
  "checkUnknown index concept =
     map (unknownField index) (filter (\<lambda>key. key \<notin> set allValidFields) (objectKeys concept))"

text \<open>
  The duplicate check reads and extends \<^verbatim>\<open>seenTitles\<close>; \<open>checkDuplicate\<close> is what it
  pushes and \<open>seenAfter\<close> the set it leaves.
\<close>

definition checkDuplicate :: "string set \<Rightarrow> nat \<Rightarrow> json \<Rightarrow> validation_error list" where
  "checkDuplicate seen index concept =
     (case getField concept ''title'' of
        Some (JString t) \<Rightarrow>
          (if t \<noteq> [] \<and> trim (toLowerCase t) \<in> seen then [duplicateTitle index t] else [])
      | _ \<Rightarrow> [])"

definition seenAfter :: "string set \<Rightarrow> json \<Rightarrow> string set" where
  "seenAfter seen concept =
     (case getField concept ''title'' of
        Some (JString t) \<Rightarrow>
          (if t \<noteq> [] \<and> trim (toLowerCase t) \<notin> seen then insert (trim (toLowerCase t)) seen
           else seen)
      | _ \<Rightarrow> seen)"

definition checkTopicID :: "nat \<Rightarrow> json \<Rightarrow> validation_error list" where
  "checkTopicID index concept =
     (if getField concept ''topicID'' \<noteq> None \<and> \<not> isNumber (getField concept ''topicID'')
      then [topicIDNotNumber index] else [])"

definition conceptErrors :: "string set \<Rightarrow> nat \<Rightarrow> json \<Rightarrow> validation_error list" where
  "conceptErrors seen index concept =
     concat (map (checkRequired index concept) requiredFields)
     @ checkUnknown index concept
     @ checkDuplicate seen index concept
     @ checkTopicID index concept"

definition hasCriticalErrors :: "validation_error list \<Rightarrow> bool" where
  "hasCriticalErrors es = list_ex (\<lambda>err. e_type err = Error) es"

text \<open>
  The accepted record. \<^verbatim>\<open>concept.f?.trim() || ""\<close> is the empty string when the field
  is \<^verbatim>\<open>undefined\<close> or \<^verbatim>\<open>null\<close> and the trimmed text when it is a string; any other
  value has no \<^verbatim>\<open>trim\<close> method and the call throws a \<^verbatim>\<open>TypeError\<close> (worded as V8
  does), which the outer \<^verbatim>\<open>catch\<close> of the validator receives.
\<close>

definition trimOrEmpty :: "json \<Rightarrow> string \<Rightarrow> js_error + string" where
  "trimOrEmpty concept field =
     (case getField concept field of
        None \<Rightarrow> Inr []
      | Some JNull \<Rightarrow> Inr []
      | Some (JString s) \<Rightarrow> Inr (trim s)
      | Some v \<Rightarrow> Inl (Thrown (''concept.'' @ field @ ''?.trim is not a function'')))"

text \<open>
  \<^verbatim>\<open>concept.topicID || 0\<close>. A record reaches this point only without an error-level
  diagnostic, so \<^verbatim>\<open>topicID\<close> is \<^verbatim>\<open>undefined\<close> or a number there.
\<close>

definition topicIDOrZero :: "json \<Rightarrow> jsnum" where
  "topicIDOrZero concept =
     (case getField concept ''topicID'' of Some (JNumber n) \<Rightarrow> n | _ \<Rightarrow> Finite 0)"

definition bindE :: "'e + 'a \<Rightarrow> ('a \<Rightarrow> 'e + 'b) \<Rightarrow> 'e + 'b" where
  "bindE m f = (case m of Inl e \<Rightarrow> Inl e | Inr x \<Rightarrow> f x)"

text \<open>
  \<^verbatim>\<open>new Date(v)\<close> first converts an object or an array to a primitive. A parsed
  object inherits \<^verbatim>\<open>valueOf\<close>, which returns the object itself, and
  \<^verbatim>\<open>toString\<close>, which returns a string; an own property \<^verbatim>\<open>toString\<close> hides the
  latter and, being a parsed value, is not callable, so no method yields a primitive
  and the conversion throws a \<^verbatim>\<open>TypeError\<close>. An array is converted by joining the
  strings of its elements, \<^verbatim>\<open>null\<close> counting as the empty string, so it throws when
  the conversion of an element does. Strings, numbers and booleans are primitives.
\<close>

fun unconvertible :: "json \<Rightarrow> bool" where
  "unconvertible (JObject kvs) = (''toString'' \<in> set (objectKeys (JObject kvs)))"
| "unconvertible (JArray xs) = list_ex unconvertible xs"
| "unconvertible v = False"

definition newDate :: "json \<Rightarrow> js_error + jsdate" where
  "newDate v =
     (if unconvertible v then Inl (Thrown ''Cannot convert object to primitive value'')
      else Inr (DateOf v))"

text \<open>
  \<^verbatim>\<open>concept.f ? new Date(concept.f) : new Date()\<close>. The clock is an input of the
  validator: \<open>clock k\<close> is what the \<open>k\<close>-th \<^verbatim>\<open>new Date()\<close> of one call reads, and the
  number of readings made so far is threaded through.
\<close>

type_synonym clock = "nat \<Rightarrow> int"

definition dateOrNow ::
  "clock \<Rightarrow> nat \<Rightarrow> json \<Rightarrow> string \<Rightarrow> js_error + (jsdate \<times> nat)" where
  "dateOrNow clk reads concept field =
     (case getField concept field of
        None \<Rightarrow> Inr (DateNow (clk reads), Suc reads)
      | Some v \<Rightarrow> (if truthy (Some v) then bindE (newDate v) (\<lambda>d. Inr (d, reads))
                   else Inr (DateNow (clk reads), Suc reads)))"

text \<open>
  The object literal, its properties evaluated in the order they are written; the
  first that throws ends the evaluation.
\<close>

definition buildConcept :: "clock \<Rightarrow> nat \<Rightarrow> json \<Rightarrow> js_error + (concept \<times> nat)" where
  "buildConcept clk reads concept =
     bindE (trimOrEmpty concept ''topic'') (\<lambda>topic.
     bindE (trimOrEmpty concept ''title'') (\<lambda>title.
     bindE (trimOrEmpty concept ''definition'') (\<lambda>definition.
     bindE (trimOrEmpty concept ''detailedExplanation'') (\<lambda>detailedExplanation.
     bindE (trimOrEmpty concept ''whenToUse'') (\<lambda>whenToUse.
     bindE (trimOrEmpty concept ''whyNeed'') (\<lambda>whyNeed.
     bindE (trimOrEmpty concept ''codeExample'') (\<lambda>codeExample.
     bindE (trimOrEmpty concept ''keyword'') (\<lambda>keyword.
     bindE (trimOrEmpty concept ''differences'') (\<lambda>differences.
     bindE (dateOrNow clk reads concept ''createdAt'') (\<lambda>(createdAt, reads1).
     bindE (dateOrNow clk reads1 concept ''updatedAt'') (\<lambda>(updatedAt, reads2).
       Inr (\<lparr> c_id = None,
              c_topicID = topicIDOrZero concept,
              c_topic = topic,
              c_title = title,
              c_definition = definition,
              c_detailedExplanation = detailedExplanation,
              c_whenToUse = whenToUse,
              c_whyNeed = whyNeed,
              c_codeExample = codeExample,
              c_keyword = keyword,
              c_differences = differences,
              c_createdAt = Some createdAt,
              c_updatedAt = Some updatedAt \<rparr>, reads2))))))))))))"

text \<open>
  The state of \<^verbatim>\<open>parsedData.forEach\<close>: \<^verbatim>\<open>result.errors\<close>, the local
  \<^verbatim>\<open>validConcepts\<close>, \<^verbatim>\<open>seenTitles\<close> and the clock readings made. A throw leaves the
  loop with the diagnostics pushed so far, which are those the \<^verbatim>\<open>catch\<close> block finds
  in \<^verbatim>\<open>result.errors\<close>.
\<close>

record loop_state =
  ls_errors :: "validation_error list"
  ls_validConcepts :: "concept list"
  ls_seenTitles :: "string set"
  ls_reads :: nat

definition validateConcept ::
  "clock \<Rightarrow> nat \<Rightarrow> json \<Rightarrow> loop_state \<Rightarrow> (js_error \<times> validation_error list) + loop_state" where
  "validateConcept clk index concept s =
     (if \<not> isObjectLike concept
      then Inr (s\<lparr>ls_errors := ls_errors s @ [notAnObject index]\<rparr>)
      else
        let conceptErrs = conceptErrors (ls_seenTitles s) index concept;
            s1 = s\<lparr>ls_errors := ls_errors s @ conceptErrs,
                    ls_seenTitles := seenAfter (ls_seenTitles s) concept\<rparr>
        in if hasCriticalErrors conceptErrs then Inr s1
           else (case buildConcept clk (ls_reads s) concept of
                   Inl e \<Rightarrow> Inl (e, ls_errors s1)
                 | Inr (c, reads') \<Rightarrow>
                     Inr (s1\<lparr>ls_validConcepts := ls_validConcepts s1 @ [c],
                             ls_reads := reads'\<rparr>)))"

fun forEachConcept ::
  "clock \<Rightarrow> nat \<Rightarrow> json list \<Rightarrow> loop_state \<Rightarrow> (js_error \<times> validation_error list) + loop_state" where
  "forEachConcept clk index [] s = Inr s"
| "forEachConcept clk index (concept # rest) s =
     (case validateConcept clk index concept s of
        Inl thrown \<Rightarrow> Inl thrown
      | Inr s' \<Rightarrow> forEachConcept clk (Suc index) rest s')"

definition initialLoop :: loop_state where
  "initialLoop = \<lparr> ls_errors = [], ls_validConcepts = [], ls_seenTitles = {}, ls_reads = 0 \<rparr>"

definition unexpectedError :: "js_error \<Rightarrow> validation_error" where
  "unexpectedError e =
     \<lparr> e_type = Error,
       e_message = ''Unexpected validation error: '' @ errorMessageOf e,
       e_line = None, e_field = None, e_conceptIndex = None \<rparr>"

definition summaryInfo :: "nat \<Rightarrow> validation_error" where
  "summaryInfo n =
     \<lparr> e_type = Info,
       e_message = ''Validation successful! '' @ showNat n @ '' concepts ready for import'',
       e_line = None, e_field = None, e_conceptIndex = None \<rparr>"

text \<open>Steps 2 and 3 of \<^verbatim>\<open>validateJsonContent\<close>, on the parsed value.\<close>

definition validateParsed :: "clock \<Rightarrow> json \<Rightarrow> validation_result" where
  "validateParsed clk parsedData =
     (case parsedData of
        JArray xs \<Rightarrow>
          (if length xs = 0
           then \<lparr> isValid = False, errors = [noConcepts], validConcepts = [],
                  totalConcepts = length xs \<rparr>
           else (case forEachConcept clk 0 xs initialLoop of
                   Inl (e, errs) \<Rightarrow>
                     \<lparr> isValid = False, errors = errs @ [unexpectedError e],
                       validConcepts = [], totalConcepts = length xs \<rparr>
                 | Inr s \<Rightarrow>
                     (let valid = ls_validConcepts s;
                          ok = (length valid > 0
                                \<and> length (filter (\<lambda>e. e_type e = Error) (ls_errors s)) = 0)
                      in \<lparr> isValid = ok,
                           errors = ls_errors s @ (if ok then [summaryInfo (length valid)] else []),
                           validConcepts = valid,
                           totalConcepts = length xs \<rparr>)))
      | _ \<Rightarrow>
          \<lparr> isValid = False, errors = [notAnArray], validConcepts = [], totalConcepts = 0 \<rparr>)"

text \<open>
  \<^verbatim>\<open>validateJsonContent(content)\<close>. \<^verbatim>\<open>JSON.parse\<close> belongs to the runtime and is a
  parameter: it returns the parsed value or the message of the \<^verbatim>\<open>SyntaxError\<close> it throws.
\<close>

definition validateJsonContent ::
  "(string \<Rightarrow> string + json) \<Rightarrow> clock \<Rightarrow> string \<Rightarrow> validation_result" where
  "validateJsonContent JSON_parse clk content =
     (case JSON_parse content of
        Inl errorMessage \<Rightarrow>
          \<lparr> isValid = False, errors = [parseFailure errorMessage], validConcepts = [],
            totalConcepts = 0 \<rparr>
      | Inr parsedData \<Rightarrow> validateParsed clk parsedData)"

text \<open>
  \<^verbatim>\<open>validateJson\<close> of the JSON validator component has the same body; before each
  \<^verbatim>\<open>return\<close> it also hands the result to the callback \<^verbatim>\<open>onValidationComplete\<close> of its
  parent, which is taken not to throw and does not change the result.
\<close>

definition validateJson ::
  "(string \<Rightarrow> string + json) \<Rightarrow> clock \<Rightarrow> string \<Rightarrow> validation_result" where
  "validateJson JSON_parse clk content = validateJsonContent JSON_parse clk content"

section \<open>The settings panel: import and synchronisation\<close>

text \<open>
  \<^verbatim>\<open>SettingsPanel\<close> in \<^verbatim>\<open>src/components/concept-view.tsx\<close>. Its handlers act on the
  record set held by the parent (\<^verbatim>\<open>concepts\<close>, replaced through
  \<^verbatim>\<open>onConceptsChange\<close>), on the entry \<^verbatim>\<open>concepts\<close> of \<^verbatim>\<open>localStorage\<close>
  (\<open>storedConcepts\<close>: the record set whose serialisation is stored, \<open>None\<close> when
  nothing is), on the toasts shown and on the network, of which the requests sent
  are logged. Storage writes are taken to succeed; console output is left out.
\<close>

record toast =
  t_title :: string
  t_description :: string
  t_variant :: "string option"

record loading =
  l_syncTo :: bool
  l_syncFrom :: bool
  l_import :: bool
  l_export :: bool

record request =
  rq_url :: string
  rq_method :: string
  rq_body :: "concept list option"

record view_state =
  concepts :: "concept list"
  storedConcepts :: "concept list option"
  toasts :: "toast list"
  requests :: "request list"
  isLoading :: loading
  jsonPreview :: string
  validationResult :: "validation_result option"
  fileInput :: "string option"

text \<open>
  The merge of \<^verbatim>\<open>handleValidatedImport\<close>: the lower-cased titles of the current
  records, the imported records whose lower-cased title is not among them, and the
  current records followed by those.
\<close>

definition existingTitles :: "concept list \<Rightarrow> string set" where
  "existingTitles cs = set (map (\<lambda>c. toLowerCase (c_title c)) cs)"

definition newConcepts :: "concept list \<Rightarrow> concept list \<Rightarrow> concept list" where
  "newConcepts cs importedConcepts =
     filter (\<lambda>c. toLowerCase (c_title c) \<notin> existingTitles cs) importedConcepts"

definition updatedConcepts :: "concept list \<Rightarrow> concept list \<Rightarrow> concept list" where
  "updatedConcepts cs importedConcepts = cs @ newConcepts cs importedConcepts"

definition cannotImport :: toast where
  "cannotImport =
     \<lparr> t_title = ''Cannot import'',
       t_description = ''Please fix all validation errors before importing.'',
       t_variant = Some ''destructive'' \<rparr>"

definition importSuccessful :: "nat \<Rightarrow> nat \<Rightarrow> toast" where
  "importSuccessful imported added =
     \<lparr> t_title = ''Import successful'',
       t_description =
         ''Successfully imported '' @ showNat added @ '' new concepts. ''
         @ (if imported - added > 0
            then showNat (imported - added) @ '' duplicates were skipped.'' else []),
       t_variant = None \<rparr>"

definition handleValidatedImport :: "view_state \<Rightarrow> view_state" where
  "handleValidatedImport st =
     (case validationResult st of
        None \<Rightarrow> st\<lparr>toasts := toasts st @ [cannotImport]\<rparr>
      | Some r \<Rightarrow>
          (if \<not> isValid r \<or> length (validConcepts r) = 0
           then st\<lparr>toasts := toasts st @ [cannotImport]\<rparr>
           else
             let importedConcepts = validConcepts r;
                 added = newConcepts (concepts st) importedConcepts;
                 updated = updatedConcepts (concepts st) importedConcepts
             in st\<lparr>concepts := updated,
                    storedConcepts := Some updated,
                    toasts := toasts st
                              @ [importSuccessful (length importedConcepts) (length added)],
                    jsonPreview := [],
                    validationResult := None,
                    fileInput := map_option (\<lambda>v. []) (fileInput st),
                    isLoading := (isLoading st)\<lparr>l_import := False\<rparr>\<rparr>))"

text \<open>
  What \<^verbatim>\<open>fetch\<close> followed by \<^verbatim>\<open>response.json()\<close> gives the handler: a rejection,
  by the message of its error, or the body of the reply.
\<close>

record api_result =
  r_success :: bool
  r_message :: "string option"
  r_count :: "nat option"
  r_concepts :: "concept list option"
  r_error :: "string option"
  r_details :: "string option"

datatype fetch_outcome = FetchRejects string | FetchJson api_result

text \<open>\<^verbatim>\<open>a || b\<close> on optional strings: the first that is present and not empty.\<close>

fun orElse :: "string option \<Rightarrow> string \<Rightarrow> string" where
  "orElse None d = d"
| "orElse (Some s) d = (if s = [] then d else s)"

text \<open>The \<^verbatim>\<open>catch\<close> block of both sync handlers, on the message of the error.\<close>

definition classify :: "string \<Rightarrow> string" where
  "classify m =
     (if includesStr m ''Failed to fetch'' \<or> includesStr m ''NetworkError''
      then ''Network error: Please check your internet connection and try again.''
      else if includesStr m ''Database connection failed''
      then ''Database connection failed. Please check your database configuration.''
      else m)"

definition syncFailed :: "string \<Rightarrow> toast" where
  "syncFailed errorMessage =
     \<lparr> t_title = ''Sync failed'', t_description = errorMessage,
       t_variant = Some ''destructive'' \<rparr>"

definition nothingToSync :: toast where
  "nothingToSync =
     \<lparr> t_title = ''Nothing to sync'',
       t_description =
         ''You don'' @ [CHR 0x27] @ ''t have any concepts to sync. Add some concepts first.'',
       t_variant = Some ''destructive'' \<rparr>"

definition syncRequest :: "string \<Rightarrow> concept list option \<Rightarrow> request" where
  "syncRequest method body =
     \<lparr> rq_url = ''/api/concepts/sync'', rq_method = method, rq_body = body \<rparr>"

definition syncedToDatabase :: "api_result \<Rightarrow> nat \<Rightarrow> toast" where
  "syncedToDatabase result n =
     \<lparr> t_title = ''Sync successful'',
       t_description =
         orElse (r_message result)
           (''Successfully synced ''
            @ showNat (case r_count result of
                         None \<Rightarrow> n
                       | Some k \<Rightarrow> if k = 0 then n else k)
            @ '' concepts to database.''),
       t_variant = None \<rparr>"

definition handleSyncToDatabase :: "fetch_outcome \<Rightarrow> view_state \<Rightarrow> view_state" where
  "handleSyncToDatabase outcome st =
     (if length (concepts st) = 0 then st\<lparr>toasts := toasts st @ [nothingToSync]\<rparr>
      else
        let st1 = st\<lparr>requests := requests st @ [syncRequest ''POST'' (Some (concepts st))],
                      isLoading := (isLoading st)\<lparr>l_syncTo := False\<rparr>\<rparr>
        in (case outcome of
              FetchRejects m \<Rightarrow> st1\<lparr>toasts := toasts st @ [syncFailed (classify m)]\<rparr>
            | FetchJson result \<Rightarrow>
                (if r_success result
                 then st1\<lparr>toasts := toasts st
                                     @ [syncedToDatabase result (length (concepts st))]\<rparr>
                 else st1\<lparr>toasts := toasts st
                        @ [syncFailed (classify
                             (orElse (r_details result)
                                (orElse (r_error result) ''Sync failed'')))]\<rparr>)))"

definition noDataFound :: toast where
  "noDataFound =
     \<lparr> t_title = ''No data found'',
       t_description = ''No concepts found in the database to sync.'',
       t_variant = None \<rparr>"

definition syncedFromDatabase :: "nat \<Rightarrow> toast" where
  "syncedFromDatabase n =
     \<lparr> t_title = ''Sync successful'',
       t_description =
         ''Successfully synced '' @ showNat n @ '' concepts from database to local storage.'',
       t_variant = None \<rparr>"

definition handleSyncFromDatabase :: "fetch_outcome \<Rightarrow> view_state \<Rightarrow> view_state" where
  "handleSyncFromDatabase outcome st =
     (let st1 = st\<lparr>requests := requests st @ [syncRequest ''GET'' None],
                    isLoading := (isLoading st)\<lparr>l_syncFrom := False\<rparr>\<rparr>
      in (case outcome of
            FetchRejects m \<Rightarrow> st1\<lparr>toasts := toasts st @ [syncFailed (classify m)]\<rparr>
          | FetchJson result \<Rightarrow>
              (if r_success result
               then
                 let databaseConcepts = (case r_concepts result of None \<Rightarrow> [] | Some cs \<Rightarrow> cs)
                 in if length databaseConcepts = 0
                    then st1\<lparr>toasts := toasts st @ [noDataFound]\<rparr>
                    else st1\<lparr>concepts := databaseConcepts,
                             storedConcepts := Some databaseConcepts,
                             toasts := toasts st
                                       @ [syncedFromDatabase (length databaseConcepts)]\<rparr>
               else st1\<lparr>toasts := toasts st
                      @ [syncFailed (classify
                           (orElse (r_details result)
                              (orElse (r_error result) ''Failed to fetch from database'')))]\<rparr>)))"

section \<open>The store: replace-all\<close>

text \<open>
  \<^verbatim>\<open>POST\<close> of \<^verbatim>\<open>src/app/api/concepts/sync/route.ts\<close>. The collection is the list of
  its documents; the driver is a parameter: whether \<^verbatim>\<open>dbConnect\<close> and
  \<^verbatim>\<open>deleteMany\<close> throw (and with which message), and what \<^verbatim>\<open>insertMany\<close> does with
  the records it is given: the documents it writes, or a message and the documents
  written before it threw.
\<close>

record 'd driver =
  connectThrows :: "string option"
  deleteThrows :: "string option"
  insertMany :: "json list \<Rightarrow> (string \<times> 'd list) + 'd list"

record reply =
  status :: nat
  success :: bool
  error :: "string option"
  details :: "string option"
  message :: "string option"
  count :: "nat option"

text \<open>\<^verbatim>\<open>concept[field]\<close> in the route: reading a property of \<^verbatim>\<open>null\<close> throws.\<close>

definition readField :: "json \<Rightarrow> string \<Rightarrow> js_error + json option" where
  "readField v field =
     (case v of
        JNull \<Rightarrow>
          Inl (Thrown (''Cannot read properties of null (reading '' @ [CHR 0x27] @ field
                       @ [CHR 0x27] @ '')''))
      | _ \<Rightarrow> Inr (getField v field))"

text \<open>
  The two nested \<^verbatim>\<open>for\<close> loops: \<open>Inr (Some (i, field))\<close> is the first missing field,
  at which the route replies; \<open>Inr None\<close> is a batch that passes.
\<close>

fun firstMissingField :: "json \<Rightarrow> string list \<Rightarrow> js_error + string option" where
  "firstMissingField concept [] = Inr None"
| "firstMissingField concept (field # rest) =
     (case readField concept field of
        Inl e \<Rightarrow> Inl e
      | Inr v \<Rightarrow> if \<not> truthy v then Inr (Some field) else firstMissingField concept rest)"

fun firstInvalid :: "nat \<Rightarrow> json list \<Rightarrow> js_error + (nat \<times> string) option" where
  "firstInvalid i [] = Inr None"
| "firstInvalid i (concept # rest) =
     (case firstMissingField concept requiredFields of
        Inl e \<Rightarrow> Inl e
      | Inr (Some field) \<Rightarrow> Inr (Some (i, field))
      | Inr None \<Rightarrow> firstInvalid (Suc i) rest)"

text \<open>The \<^verbatim>\<open>catch\<close> block of the route, on the message of the error it caught.\<close>

definition syncErrorReply :: "string \<Rightarrow> reply" where
  "syncErrorReply m =
     (if includesStr m ''ENOTFOUND'' \<or> includesStr m ''ECONNREFUSED''
      then \<lparr> status = 503, success = False,
             error = Some ''Database connection failed'',
             details = Some (''Unable to connect to MongoDB. Please check your internet ''
                             @ ''connection and database configuration.''),
             message = None, count = None \<rparr>
      else if includesStr m ''ValidationError''
      then \<lparr> status = 400, success = False,
             error = Some ''Data validation failed'',
             details = Some (''One or more concepts contain invalid data that doesn''
                             @ [CHR 0x27] @ ''t match the required format.''),
             message = None, count = None \<rparr>
      else \<lparr> status = 500, success = False,
             error = Some ''Internal server error'',
             details = Some (''An unexpected error occurred while syncing data. ''
                             @ ''Please try again later.''),
             message = None, count = None \<rparr>)"

definition invalidDataFormat :: reply where
  "invalidDataFormat =
     \<lparr> status = 400, success = False,
       error = Some ''Invalid data format'',
       details = Some ''Expected an array of concepts but received different data type'',
       message = None, count = None \<rparr>"

definition invalidConceptData :: "nat \<Rightarrow> string \<Rightarrow> reply" where
  "invalidConceptData i field =
     \<lparr> status = 400, success = False,
       error = Some ''Invalid concept data'',
       details = Some (''Concept at index '' @ showNat i
                       @ '' is missing required field: '' @ field),
       message = None, count = None \<rparr>"

definition syncedReply :: "nat \<Rightarrow> reply" where
  "syncedReply n =
     \<lparr> status = 200, success = True, error = None, details = None,
       message = Some (''Successfully synced '' @ showNat n @ '' concepts to database''),
       count = Some n \<rparr>"

text \<open>
  The request body is what \<^verbatim>\<open>request.json()\<close> gives: a parsed value, or the message
  of the error it throws. Destructuring \<^verbatim>\<open>null\<close> throws.
\<close>

definition destructureNull :: string where
  "destructureNull =
     ''Cannot destructure property '' @ [CHR 0x27] @ ''concepts'' @ [CHR 0x27]
     @ '' of null as it is null.''"

definition POST_sync :: "'d driver \<Rightarrow> string + json \<Rightarrow> 'd list \<Rightarrow> reply \<times> 'd list" where
  "POST_sync db body store =
     (case connectThrows db of
        Some m \<Rightarrow> (syncErrorReply m, store)
      | None \<Rightarrow>
     (case body of
        Inl m \<Rightarrow> (syncErrorReply m, store)
      | Inr JNull \<Rightarrow> (syncErrorReply destructureNull, store)
      | Inr parsed \<Rightarrow>
     (case getField parsed ''concepts'' of
        Some (JArray cs) \<Rightarrow>
          (case firstInvalid 0 cs of
             Inl e \<Rightarrow> (syncErrorReply (errorMessageOf e), store)
           | Inr (Some (i, field)) \<Rightarrow> (invalidConceptData i field, store)
           | Inr None \<Rightarrow>
               (case deleteThrows db of
                  Some m \<Rightarrow> (syncErrorReply m, store)
                | None \<Rightarrow>
                    (if length cs > 0
                     then (case insertMany db cs of
                             Inl (m, written) \<Rightarrow> (syncErrorReply m, written)
                           | Inr written \<Rightarrow> (syncedReply (length cs), written))
                     else (syncedReply (length cs), []))))
      | _ \<Rightarrow> (invalidDataFormat, store))))"

section \<open>Notions of the specification\<close>

text \<open>
  A well-formed record, after the data model: an object whose four required fields
  are strings that are not empty once trimmed, whose optional text fields are absent
  or strings, whose \<^verbatim>\<open>topicID\<close> is absent or a number, and whose two timestamps are
  absent or written as a string or a number.
\<close>

definition nonEmptyText :: "json option \<Rightarrow> bool" where
  "nonEmptyText v = (case v of Some (JString s) \<Rightarrow> trim s \<noteq> [] | _ \<Rightarrow> False)"

definition optionalText :: "json option \<Rightarrow> bool" where
  "optionalText v = (case v of None \<Rightarrow> True | Some (JString s) \<Rightarrow> True | _ \<Rightarrow> False)"

definition optionalTextFields :: "string list" where
  "optionalTextFields =
     [''detailedExplanation'', ''whenToUse'', ''whyNeed'', ''codeExample'', ''differences'']"

definition optionalTimestamp :: "json option \<Rightarrow> bool" where
  "optionalTimestamp v =
     (case v of None \<Rightarrow> True | Some (JString s) \<Rightarrow> True | Some (JNumber n) \<Rightarrow> True
      | _ \<Rightarrow> False)"

definition wellFormed :: "json \<Rightarrow> bool" where
  "wellFormed c =
     (case c of
        JObject kvs \<Rightarrow>
          list_all (\<lambda>f. nonEmptyText (getField c f)) requiredFields
          \<and> list_all (\<lambda>f. optionalText (getField c f)) optionalTextFields
          \<and> (case getField c ''topicID'' of None \<Rightarrow> True | Some v \<Rightarrow> isNumber (Some v))
          \<and> optionalTimestamp (getField c ''createdAt'')
          \<and> optionalTimestamp (getField c ''updatedAt'')
      | _ \<Rightarrow> False)"

text \<open>
  A record with a record-level error: one that is not an object, or one whose own
  diagnostics hold an error-level entry.
\<close>

definition rejected :: "json \<Rightarrow> bool" where
  "rejected c = (\<not> isObjectLike c \<or> hasCriticalErrors (conceptErrors {} 0 c))"

definition errorLevel :: "validation_error list \<Rightarrow> validation_error list" where
  "errorLevel es = filter (\<lambda>e. e_type e = Error) es"

definition warningLevel :: "validation_error list \<Rightarrow> validation_error list" where
  "warningLevel es = filter (\<lambda>e. e_type e = Warning) es"

text \<open>
  The error-level diagnostics of a result that name a given record and field, and
  what a required field is to receive, by the value read from the record: the
  `missing' diagnostic for a falsy value, the `wrong type' diagnostic for a truthy
  value that is not a string, the `empty' diagnostic for a string that is not empty
  but is once trimmed, none otherwise.
\<close>

definition fieldDiagnostics ::
  "validation_error list \<Rightarrow> nat \<Rightarrow> string \<Rightarrow> validation_error list" where
  "fieldDiagnostics es i f =
     filter (\<lambda>e. e_type e = Error \<and> e_conceptIndex e = Some i \<and> e_field e = Some f) es"

fun expectedDiagnostics :: "nat \<Rightarrow> string \<Rightarrow> json option \<Rightarrow> validation_error list" where
  "expectedDiagnostics i f None = [missingField i f]"
| "expectedDiagnostics i f (Some JNull) = [missingField i f]"
| "expectedDiagnostics i f (Some (JBool b)) =
     (if b then [mustBeString i f] else [missingField i f])"
| "expectedDiagnostics i f (Some (JNumber n)) =
     (if n = Finite 0 then [missingField i f] else [mustBeString i f])"
| "expectedDiagnostics i f (Some (JString s)) =
     (if s = [] then [missingField i f]
      else if trim s = [] then [cannotBeEmpty i f] else [])"
| "expectedDiagnostics i f (Some (JArray xs)) = [mustBeString i f]"
| "expectedDiagnostics i f (Some (JObject kvs)) = [mustBeString i f]"

text \<open>
  A record that aborts the validation: it has no error-level diagnostic of its own,
  so the accepted record is constructed, and the construction throws, because an
  optional text field is neither absent, \<^verbatim>\<open>null\<close> nor a string, or because a
  timestamp cannot be converted to a primitive.
\<close>

definition textOrNull :: "json option \<Rightarrow> bool" where
  "textOrNull v =
     (case v of None \<Rightarrow> True | Some JNull \<Rightarrow> True | Some (JString s) \<Rightarrow> True | _ \<Rightarrow> False)"

definition trimmable :: "json \<Rightarrow> bool" where
  "trimmable c = list_all (\<lambda>f. textOrNull (getField c f)) optionalTextFields"

definition datable :: "json option \<Rightarrow> bool" where
  "datable v = (case v of None \<Rightarrow> True | Some w \<Rightarrow> \<not> unconvertible w)"

definition constructible :: "json \<Rightarrow> bool" where
  "constructible c =
     (trimmable c \<and> datable (getField c ''createdAt'') \<and> datable (getField c ''updatedAt''))"

definition aborts :: "json \<Rightarrow> bool" where
  "aborts c = (isObjectLike c \<and> \<not> rejected c \<and> \<not> constructible c)"

text \<open>
  The diagnostics in \<^verbatim>\<open>result.errors\<close> when the loop has ended, by its end or by a
  throw.
\<close>

definition pushed :: "(js_error \<times> validation_error list) + loop_state \<Rightarrow> validation_error list" where
  "pushed outcome = (case outcome of Inl (e, errs) \<Rightarrow> errs | Inr s \<Rightarrow> ls_errors s)"

text \<open>
  A timestamp of an accepted record, against the value of the field in the input: the
  date made of that value when it is truthy, and a reading of the clock otherwise.
\<close>

definition timestampFrom :: "clock \<Rightarrow> json option \<Rightarrow> jsdate option \<Rightarrow> bool" where
  "timestampFrom clk v d =
     (case v of
        None \<Rightarrow> d \<in> (\<lambda>k. Some (DateNow (clk k))) ` UNIV
      | Some w \<Rightarrow> if truthy (Some w) then d = Some (DateOf w)
                   else d \<in> (\<lambda>k. Some (DateNow (clk k))) ` UNIV)"

definition timestampsFrom :: "clock \<Rightarrow> concept \<Rightarrow> json \<Rightarrow> bool" where
  "timestampsFrom clk x c =
     (timestampFrom clk (getField c ''createdAt'') (c_createdAt x)
      \<and> timestampFrom clk (getField c ''updatedAt'') (c_updatedAt x))"

text \<open>A record of a request that lacks a required field: the value read is falsy.\<close>

definition lacksRequired :: "json \<Rightarrow> bool" where
  "lacksRequired c = list_ex (\<lambda>f. \<not> truthy (getField c f)) requiredFields"

text \<open>Two titles match case-insensitively when their lower-cased forms are equal.\<close>

definition titleMatches :: "concept \<Rightarrow> concept \<Rightarrow> bool" where
  "titleMatches a b = (toLowerCase (c_title a) = toLowerCase (c_title b))"

definition unmatched :: "concept list \<Rightarrow> concept list \<Rightarrow> concept list" where
  "unmatched existing incoming =
     filter (\<lambda>c. \<not> list_ex (titleMatches c) existing) incoming"

text \<open>A record without its two timestamps.\<close>

definition withoutTimestamps :: "concept \<Rightarrow> concept" where
  "withoutTimestamps c = c\<lparr>c_createdAt := None, c_updatedAt := None\<rparr>"

text \<open>
  Two accepted records agree in full, or in every field but the two timestamps.
\<close>

definition agree :: "bool \<Rightarrow> concept \<Rightarrow> concept \<Rightarrow> bool" where
  "agree full x y = (if full then x = y else withoutTimestamps x = withoutTimestamps y)"

text \<open>A record of the input that carries both timestamps.\<close>

definition stamped :: "json \<Rightarrow> bool" where
  "stamped c = (truthy (getField c ''createdAt'') \<and> truthy (getField c ''updatedAt''))"

section \<open>Example inputs\<close>

definition recordA :: json where
  "recordA =
     JObject [(''title'', JString ''A''), (''topic'', JString ''T''),
              (''definition'', JString ''D''), (''keyword'', JString ''K'')]"

definition recordLowerA :: json where
  "recordLowerA =
     JObject [(''title'', JString ''a''), (''topic'', JString ''T2''),
              (''definition'', JString ''D2''), (''keyword'', JString ''K2'')]"

definition recordEmptyTitle :: json where
  "recordEmptyTitle =
     JObject [(''title'', JString ''''), (''topic'', JString ''T''),
              (''definition'', JString ''D''), (''keyword'', JString ''K'')]"

definition recordFalseTitle :: json where
  "recordFalseTitle =
     JObject [(''title'', JBool False), (''topic'', JString ''T''),
              (''definition'', JString ''D''), (''keyword'', JString ''K'')]"

definition recordBlankTopic :: json where
  "recordBlankTopic =
     JObject [(''title'', JString ''B''), (''topic'', JString ''  ''),
              (''definition'', JString ''D''), (''keyword'', JString ''K'')]"

definition recordStamped :: json where
  "recordStamped =
     JObject [(''title'', JString ''S''), (''topic'', JString ''T''),
              (''definition'', JString ''D''), (''keyword'', JString ''K''),
              (''createdAt'', JString ''2024-01-01T00:00:00.000Z''),
              (''updatedAt'', JString ''2024-01-02T00:00:00.000Z'')]"

definition recordNumericWhyNeed :: json where
  "recordNumericWhyNeed =
     JObject [(''title'', JString ''A''), (''topic'', JString ''T''),
              (''definition'', JString ''D''), (''keyword'', JString ''K''),
              (''whyNeed'', JNumber (Finite 5))]"

definition recordUntitledWhyNeed :: json where
  "recordUntitledWhyNeed =
     JObject [(''topic'', JString ''T''), (''definition'', JString ''D''),
              (''keyword'', JString ''K''), (''whyNeed'', JNumber (Finite 5))]"

definition recordOddDate :: json where
  "recordOddDate =
     JObject [(''title'', JString ''A''), (''topic'', JString ''T''),
              (''definition'', JString ''D''), (''keyword'', JString ''K''),
              (''createdAt'', JObject [(''toString'', JNumber (Finite 1))])]"

definition recordNoKeyword :: json where
  "recordNoKeyword =
     JObject [(''title'', JString ''B''), (''topic'', JString ''T''),
              (''definition'', JString ''D'')]"

definition scenarioBatch :: "json list" where
  "scenarioBatch = [recordA, recordLowerA]"

definition scenarioText :: string where
  \<open>scenarioText =
     ''[{"title":"A","topic":"T","definition":"D","keyword":"K"},''
     @ ''{"title":"a","topic":"T2","definition":"D2","keyword":"K2"}]''\<close>

definition falsyTitlesText :: string where
  \<open>falsyTitlesText =
     ''[{"title":"","topic":"T","definition":"D","keyword":"K"},''
     @ ''{"title":false,"topic":"T","definition":"D","keyword":"K"}]''\<close>

definition mixedText :: string where
  \<open>mixedText =
     ''[{"title":"A","topic":"T","definition":"D","keyword":"K"},''
     @ ''{"title":"B","topic":"  ","definition":"D","keyword":"K"}]''\<close>

definition stampedText :: string where
  \<open>stampedText =
     ''[{"title":"S","topic":"T","definition":"D","keyword":"K",''
     @ ''"createdAt":"2024-01-01T00:00:00.000Z","updatedAt":"2024-01-02T00:00:00.000Z"}]''\<close>

definition abortedDuplicateText :: string where
  \<open>abortedDuplicateText =
     ''[{"title":"A","topic":"T","definition":"D","keyword":"K","whyNeed":5},''
     @ ''{"title":"a","topic":"T2","definition":"D2","keyword":"K2"}]''\<close>

definition abortedMissingText :: string where
  \<open>abortedMissingText =
     ''[{"title":"A","topic":"T","definition":"D","keyword":"K","whyNeed":5},''
     @ ''{"title":"B","topic":"T","definition":"D"}]''\<close>

definition untitledWhyNeedText :: string where
  \<open>untitledWhyNeedText =
     ''[{"topic":"T","definition":"D","keyword":"K","whyNeed":5},''
     @ ''{"title":"","topic":"T","definition":"D","keyword":"K"}]''\<close>

definition oddDateText :: string where
  \<open>oddDateText =
     ''[{"title":"A","topic":"T","definition":"D","keyword":"K",''
     @ ''"createdAt":{"toString":1}}]''\<close>

text \<open>
  \<^verbatim>\<open>JSON.parse\<close> on the texts of the examples; any other text is answered as the
  text \<^verbatim>\<open>not json\<close> is.
\<close>

definition exampleParse :: "string \<Rightarrow> string + json" where
  "exampleParse content =
     (if content = scenarioText then Inr (JArray scenarioBatch)
      else if content = falsyTitlesText then Inr (JArray [recordEmptyTitle, recordFalseTitle])
      else if content = mixedText then Inr (JArray [recordA, recordBlankTopic])
      else if content = stampedText then Inr (JArray [recordStamped])
      else if content = abortedDuplicateText
      then Inr (JArray [recordNumericWhyNeed, recordLowerA])
      else if content = abortedMissingText
      then Inr (JArray [recordNumericWhyNeed, recordNoKeyword])
      else if content = untitledWhyNeedText
      then Inr (JArray [recordUntitledWhyNeed, recordEmptyTitle])
      else if content = oddDateText then Inr (JArray [recordOddDate])
      else if content = ''[]'' then Inr (JArray [])
      else Inl ''Unexpected token o in JSON at position 1'')"

definition clockZero :: clock where
  "clockZero k = 0"

definition clockOne :: clock where
  "clockOne k = 1"

definition conceptA :: concept where
  "conceptA =
     \<lparr> c_id = Some ''65f0'', c_topicID = Finite 1, c_topic = ''T'', c_title = ''Alpha'',
       c_definition = ''D'', c_detailedExplanation = [], c_whenToUse = [], c_whyNeed = [],
       c_codeExample = [], c_keyword = ''K'', c_differences = [],
       c_createdAt = None, c_updatedAt = None \<rparr>"

definition conceptB :: concept where
  "conceptB = conceptA\<lparr>c_id := None, c_title := ''Beta''\<rparr>"

definition conceptUpperA :: concept where
  "conceptUpperA = conceptA\<lparr>c_id := None, c_title := ''ALPHA''\<rparr>"

definition idle :: loading where
  "idle = \<lparr> l_syncTo = False, l_syncFrom = False, l_import = False, l_export = False \<rparr>"

definition emptyView :: view_state where
  "emptyView =
     \<lparr> concepts = [], storedConcepts = None, toasts = [], requests = [], isLoading = idle,
       jsonPreview = [], validationResult = None, fileInput = None \<rparr>"

definition viewA :: view_state where
  "viewA = emptyView\<lparr>concepts := [conceptA], storedConcepts := Some [conceptA]\<rparr>"

definition stagedImport :: view_state where
  "stagedImport =
     viewA\<lparr>validationResult :=
       Some \<lparr> isValid = True, errors = [], validConcepts = [conceptUpperA, conceptB],
              totalConcepts = 2 \<rparr>\<rparr>"

definition emptyRemote :: api_result where
  "emptyRemote =
     \<lparr> r_success = True, r_message = Some ''Retrieved 0 concepts from database'',
       r_count = Some 0, r_concepts = Some [], r_error = None, r_details = None \<rparr>"

definition plainDriver :: "json driver" where
  "plainDriver =
     \<lparr> connectThrows = None, deleteThrows = None, insertMany = (\<lambda>cs. Inr cs) \<rparr>"

section \<open>Properties\<close>

subsection \<open>Malformed and empty input\<close>

lemma startsWith_self: "startsWith s s"
  by (induction s) auto

lemma includesStr_self: "includesStr s s"
  by (cases s) (auto simp: startsWith_self)

lemma includesStr_append: "includesStr (p @ s) s"
  by (induction p) (auto simp: includesStr_self)

text \<open>
  Claim C5. When \<^verbatim>\<open>JSON.parse\<close> throws, the validator returns a result (both copies
  of it the same one): its only diagnostic is the parse failure, of level error, whose
  message contains the message of the parser; no record is counted or accepted and the
  result is not valid.
\<close>

theorem malformed_input_single_error:
  "JSON_parse content = Inl detail \<Longrightarrow>
     validateJsonContent JSON_parse clk content =
       \<lparr> isValid = False, errors = [parseFailure detail], validConcepts = [],
         totalConcepts = 0 \<rparr>
     \<and> validateJson JSON_parse clk content = validateJsonContent JSON_parse clk content
     \<and> e_type (parseFailure detail) = Error
     \<and> includesStr (e_message (parseFailure detail)) detail"
proof -
  assume parse: "JSON_parse content = Inl detail"
  have "e_message (parseFailure detail) = ''JSON parsing failed: '' @ detail"
    by (simp add: parseFailure_def)
  then have "includesStr (e_message (parseFailure detail)) detail"
    by (simp only: includesStr_append)
  moreover have "e_type (parseFailure detail) = Error"
    by (simp add: parseFailure_def)
  ultimately show ?thesis
    using parse by (simp add: validateJsonContent_def validateJson_def)
qed

theorem malformed_input_single_error_witness:
  "exampleParse ''not json'' = Inl ''Unexpected token o in JSON at position 1''
   \<and> errors (validateJsonContent exampleParse clockZero ''not json'') =
       [\<lparr> e_type = Error,
          e_message = ''JSON parsing failed: Unexpected token o in JSON at position 1'',
          e_line = None, e_field = None, e_conceptIndex = None \<rparr>]
   \<and> \<not> isValid (validateJsonContent exampleParse clockZero ''not json'')
   \<and> totalConcepts (validateJsonContent exampleParse clockZero ''not json'') = 0"
proof -
  have parse: "exampleParse ''not json'' = Inl ''Unexpected token o in JSON at position 1''"
    by code_simp
  have msg: "parseFailure ''Unexpected token o in JSON at position 1'' =
       \<lparr> e_type = Error,
          e_message = ''JSON parsing failed: Unexpected token o in JSON at position 1'',
          e_line = None, e_field = None, e_conceptIndex = None \<rparr>"
    by code_simp
  from malformed_input_single_error
         [where JSON_parse = exampleParse and content = "''not json''" and clk = clockZero,
          OF parse] parse msg
  show ?thesis by simp
qed

text \<open>
  Claim C6. For a text that parses to the empty array the validator returns a result
  that is not valid, accepts no record, counts none, and holds one diagnostic, the
  `no concepts' warning.
\<close>

theorem empty_batch_warning:
  "JSON_parse content = Inr (JArray []) \<Longrightarrow>
     validateJsonContent JSON_parse clk content =
       \<lparr> isValid = False, errors = [noConcepts], validConcepts = [], totalConcepts = 0 \<rparr>
     \<and> validateJson JSON_parse clk content = validateJsonContent JSON_parse clk content
     \<and> e_type noConcepts = Warning"
  by (simp add: validateJsonContent_def validateJson_def validateParsed_def noConcepts_def)

theorem empty_batch_warning_witness:
  "exampleParse ''[]'' = Inr (JArray [])
   \<and> errors (validateJsonContent exampleParse clockZero ''[]'') = [noConcepts]
   \<and> warningLevel (errors (validateJsonContent exampleParse clockZero ''[]'')) = [noConcepts]
   \<and> errorLevel (errors (validateJsonContent exampleParse clockZero ''[]'')) = []
   \<and> \<not> isValid (validateJsonContent exampleParse clockZero ''[]'')"
proof -
  have parse: "exampleParse ''[]'' = Inr (JArray [])"
    by code_simp
  from empty_batch_warning
         [where JSON_parse = exampleParse and content = "''[]''" and clk = clockZero, OF parse]
       parse
  show ?thesis by (simp add: warningLevel_def errorLevel_def)
qed

subsection \<open>The validity flag\<close>

lemma hasCriticalErrors_append:
  "hasCriticalErrors (a @ b) = (hasCriticalErrors a \<or> hasCriticalErrors b)"
  by (simp add: hasCriticalErrors_def)

lemma hasCriticalErrors_Nil: "\<not> hasCriticalErrors []"
  by (simp add: hasCriticalErrors_def)

lemma checkUnknown_not_critical: "\<not> hasCriticalErrors (checkUnknown i c)"
  by (simp add: hasCriticalErrors_def checkUnknown_def unknownField_def list_ex_iff)

lemma checkDuplicate_not_critical: "\<not> hasCriticalErrors (checkDuplicate seen i c)"
  by (simp add: hasCriticalErrors_def checkDuplicate_def duplicateTitle_def
      split: option.splits json.splits)

lemma checkRequired_critical:
  "hasCriticalErrors (checkRequired i c f) = (checkRequired i c f \<noteq> [])"
  by (simp add: hasCriticalErrors_def checkRequired_def missingField_def mustBeString_def
      cannotBeEmpty_def split: option.splits json.splits)

lemma checkRequired_empty_index:
  "(checkRequired i c f = []) = (checkRequired j c f = [])"
  by (simp add: checkRequired_def split: option.splits json.splits)

lemma checkTopicID_critical_index:
  "hasCriticalErrors (checkTopicID i c) = hasCriticalErrors (checkTopicID j c)"
  by (simp add: hasCriticalErrors_def checkTopicID_def topicIDNotNumber_def)

lemma required_critical_index:
  "hasCriticalErrors (concat (map (checkRequired i c) requiredFields))
   = hasCriticalErrors (concat (map (checkRequired j c) requiredFields))"
  using checkRequired_empty_index [of i c _ j]
  by (simp add: requiredFields_def hasCriticalErrors_append checkRequired_critical)

lemma conceptErrors_critical:
  "hasCriticalErrors (conceptErrors seen i c) = hasCriticalErrors (conceptErrors {} 0 c)"
  using required_critical_index [of i c 0] checkTopicID_critical_index [of i c 0]
  by (simp add: conceptErrors_def hasCriticalErrors_append checkUnknown_not_critical
      checkDuplicate_not_critical)

lemma validateConcept_outcome:
  assumes "validateConcept clk i c s = Inr s'"
  shows "hasCriticalErrors (ls_errors s') = (hasCriticalErrors (ls_errors s) \<or> rejected c)
         \<and> length (ls_validConcepts s')
             = length (ls_validConcepts s) + (if rejected c then 0 else 1)"
proof (cases "isObjectLike c")
  case False
  with assms have "s' = s\<lparr>ls_errors := ls_errors s @ [notAnObject i]\<rparr>"
    by (simp add: validateConcept_def)
  moreover have "hasCriticalErrors [notAnObject i]"
    by (simp add: hasCriticalErrors_def notAnObject_def)
  ultimately show ?thesis
    using False by (simp add: hasCriticalErrors_append rejected_def)
next
  case True
  let ?es = "conceptErrors (ls_seenTitles s) i c"
  have crit: "hasCriticalErrors ?es = rejected c"
    using True conceptErrors_critical [of "ls_seenTitles s" i c] by (simp add: rejected_def)
  show ?thesis
  proof (cases "rejected c")
    case rej: True
    with crit True assms
    have "s' = s\<lparr>ls_errors := ls_errors s @ ?es,
                   ls_seenTitles := seenAfter (ls_seenTitles s) c\<rparr>"
      by (simp add: validateConcept_def Let_def)
    with rej crit show ?thesis
      by (simp add: hasCriticalErrors_append)
  next
    case acc: False
    with crit True assms obtain x r where
      "s' = s\<lparr>ls_errors := ls_errors s @ ?es,
                ls_seenTitles := seenAfter (ls_seenTitles s) c,
                ls_validConcepts := ls_validConcepts s @ [x],
                ls_reads := r\<rparr>"
      by (auto simp: validateConcept_def Let_def split: sum.splits)
    with acc crit show ?thesis
      by (simp add: hasCriticalErrors_append)
  qed
qed

lemma forEachConcept_outcome:
  "forEachConcept clk i xs s = Inr s' \<Longrightarrow>
     hasCriticalErrors (ls_errors s') = (hasCriticalErrors (ls_errors s) \<or> list_ex rejected xs)
     \<and> length (ls_validConcepts s')
         = length (ls_validConcepts s) + length (filter (\<lambda>c. \<not> rejected c) xs)"
proof (induction xs arbitrary: i s)
  case Nil
  then show ?case by simp
next
  case (Cons c rest)
  from Cons.prems obtain s1 where
    step: "validateConcept clk i c s = Inr s1" and
    loop: "forEachConcept clk (Suc i) rest s1 = Inr s'"
    by (auto split: sum.splits)
  from Cons.IH [OF loop] validateConcept_outcome [OF step]
  show ?case by auto
qed


lemma trimOrEmpty_required:
  "checkRequired i c f = [] \<Longrightarrow> \<exists>t. trimOrEmpty c f = Inr t"
  by (simp add: checkRequired_def trimOrEmpty_def split: option.splits json.splits if_splits)

lemma trimOrEmpty_optional:
  "textOrNull (getField c f) \<Longrightarrow> \<exists>t. trimOrEmpty c f = Inr t"
  by (simp add: textOrNull_def trimOrEmpty_def split: option.splits json.splits)

lemma not_rejected_required:
  assumes "\<not> rejected c" and "f \<in> set requiredFields"
  shows "checkRequired 0 c f = []"
proof -
  from assms(1) have "\<not> hasCriticalErrors (concat (map (checkRequired 0 c) requiredFields))"
    by (simp add: rejected_def conceptErrors_def hasCriticalErrors_append)
  with assms(2) show ?thesis
    by (auto simp: requiredFields_def hasCriticalErrors_append checkRequired_critical)
qed

lemma dateOrNow_returns:
  "datable (getField c f) \<Longrightarrow> \<exists>d r'. dateOrNow clk r c f = Inr (d, r')"
  by (auto simp: datable_def dateOrNow_def newDate_def bindE_def split: option.splits)

lemma unconvertible_truthy: "unconvertible w \<Longrightarrow> truthy (Some w)"
  by (cases w) simp_all

lemma dateOrNow_throws:
  "\<not> datable (getField c f) \<Longrightarrow> \<exists>e. dateOrNow clk r c f = Inl e"
  by (auto simp: datable_def dateOrNow_def newDate_def bindE_def unconvertible_truthy
      split: option.splits)

lemma trimOrEmpty_throws:
  "\<not> textOrNull (getField c f) \<Longrightarrow> \<exists>e. trimOrEmpty c f = Inl e"
  by (simp add: textOrNull_def trimOrEmpty_def split: option.splits json.splits)

lemma buildConcept_returns:
  assumes "\<not> rejected c" and "constructible c"
  shows "\<exists>x r'. buildConcept clk r c = Inr (x, r')"
proof -
  have req: "\<exists>t. trimOrEmpty c f = Inr t" if "f \<in> set requiredFields" for f
    using not_rejected_required [OF assms(1) that] by (rule trimOrEmpty_required)
  have opt: "\<exists>t. trimOrEmpty c f = Inr t" if "f \<in> set optionalTextFields" for f
    using assms(2) that
    by (auto simp: constructible_def trimmable_def list_all_iff intro: trimOrEmpty_optional)
  obtain t1 where t1: "trimOrEmpty c ''topic'' = Inr t1"
    using req [of "''topic''"] by (auto simp: requiredFields_def)
  obtain t2 where t2: "trimOrEmpty c ''title'' = Inr t2"
    using req [of "''title''"] by (auto simp: requiredFields_def)
  obtain t3 where t3: "trimOrEmpty c ''definition'' = Inr t3"
    using req [of "''definition''"] by (auto simp: requiredFields_def)
  obtain t4 where t4: "trimOrEmpty c ''detailedExplanation'' = Inr t4"
    using opt [of "''detailedExplanation''"] by (auto simp: optionalTextFields_def)
  obtain t5 where t5: "trimOrEmpty c ''whenToUse'' = Inr t5"
    using opt [of "''whenToUse''"] by (auto simp: optionalTextFields_def)
  obtain t6 where t6: "trimOrEmpty c ''whyNeed'' = Inr t6"
    using opt [of "''whyNeed''"] by (auto simp: optionalTextFields_def)
  obtain t7 where t7: "trimOrEmpty c ''codeExample'' = Inr t7"
    using opt [of "''codeExample''"] by (auto simp: optionalTextFields_def)
  obtain t8 where t8: "trimOrEmpty c ''keyword'' = Inr t8"
    using req [of "''keyword''"] by (auto simp: requiredFields_def)
  obtain t9 where t9: "trimOrEmpty c ''differences'' = Inr t9"
    using opt [of "''differences''"] by (auto simp: optionalTextFields_def)
  obtain d1 r1 where d1: "dateOrNow clk r c ''createdAt'' = Inr (d1, r1)"
    using assms(2) dateOrNow_returns [of c "''createdAt''" clk r]
    by (auto simp: constructible_def)
  obtain d2 r2 where d2: "dateOrNow clk r1 c ''updatedAt'' = Inr (d2, r2)"
    using assms(2) dateOrNow_returns [of c "''updatedAt''" clk r1]
    by (auto simp: constructible_def)
  show ?thesis
    by (simp add: buildConcept_def bindE_def t1 t2 t3 t4 t5 t6 t7 t8 t9 d1 d2)
qed

lemma buildConcept_throws:
  assumes "\<not> constructible c"
  shows "\<exists>e. buildConcept clk r c = Inl e"
proof (cases "trimmable c")
  case False
  then obtain f where f: "f \<in> set optionalTextFields" and "\<not> textOrNull (getField c f)"
    by (auto simp: trimmable_def list_all_iff)
  then obtain e where "trimOrEmpty c f = Inl e"
    using trimOrEmpty_throws by blast
  with f show ?thesis
    by (auto simp: buildConcept_def bindE_def optionalTextFields_def split: sum.splits)
next
  case True
  with assms have "\<not> datable (getField c ''createdAt'') \<or> \<not> datable (getField c ''updatedAt'')"
    by (simp add: constructible_def)
  then show ?thesis
  proof
    assume "\<not> datable (getField c ''createdAt'')"
    from dateOrNow_throws [OF this, of clk r] show ?thesis
      by (auto simp: buildConcept_def bindE_def split: sum.splits)
  next
    assume late: "\<not> datable (getField c ''updatedAt'')"
    have "dateOrNow clk r' c ''updatedAt'' \<noteq> Inr p" for r' p
      using dateOrNow_throws [OF late, of clk r'] by auto
    then show ?thesis
      by (auto simp: buildConcept_def bindE_def split: sum.splits prod.splits)
  qed
qed

lemma validateConcept_returns:
  "(\<exists>s'. validateConcept clk i c s = Inr s') = (\<not> aborts c)"
proof (cases "isObjectLike c \<and> \<not> rejected c")
  case False
  then show ?thesis
    using conceptErrors_critical [of "ls_seenTitles s" i c]
    by (auto simp: validateConcept_def rejected_def aborts_def Let_def)
next
  case True
  then have ok: "isObjectLike c" "\<not> hasCriticalErrors (conceptErrors (ls_seenTitles s) i c)"
    using conceptErrors_critical [of "ls_seenTitles s" i c] by (simp_all add: rejected_def)
  show ?thesis
  proof (cases "constructible c")
    case built: True
    from True built buildConcept_returns [of c clk "ls_reads s"] obtain x r' where
      "buildConcept clk (ls_reads s) c = Inr (x, r')" by blast
    with ok True built show ?thesis
      by (simp add: validateConcept_def Let_def aborts_def)
  next
    case thrown: False
    from buildConcept_throws [OF thrown, of clk "ls_reads s"] obtain e where
      "buildConcept clk (ls_reads s) c = Inl e" by blast
    with ok True thrown show ?thesis
      by (simp add: validateConcept_def Let_def aborts_def)
  qed
qed

lemma forEachConcept_returns:
  "(\<exists>s'. forEachConcept clk i xs s = Inr s') = (\<not> list_ex aborts xs)"
proof (induction xs arbitrary: i s)
  case Nil
  then show ?case by simp
next
  case (Cons c rest)
  show ?case
  proof (cases "aborts c")
    case True
    with validateConcept_returns [of clk i c s]
    have "\<exists>t. validateConcept clk i c s = Inl t"
      by (cases "validateConcept clk i c s") auto
    with True show ?thesis by auto
  next
    case False
    with validateConcept_returns [of clk i c s] obtain s1 where
      "validateConcept clk i c s = Inr s1" by blast
    with False Cons.IH [of "Suc i" s1] show ?thesis by simp
  qed
qed

lemma nonEmptyText_required:
  "nonEmptyText (getField c f) \<Longrightarrow> checkRequired i c f = []"
  by (auto simp: nonEmptyText_def checkRequired_def trim_def split: option.splits json.splits)

lemma optionalText_textOrNull: "optionalText v \<Longrightarrow> textOrNull v"
  by (simp add: optionalText_def textOrNull_def split: option.splits json.splits)

lemma optionalTimestamp_datable: "optionalTimestamp v \<Longrightarrow> datable v"
  by (auto simp: optionalTimestamp_def datable_def split: option.splits json.splits)

lemma wellFormed_accepted:
  assumes "wellFormed c"
  shows "\<not> rejected c" and "\<not> aborts c"
proof -
  from assms obtain kvs where obj: "c = JObject kvs"
    by (auto simp: wellFormed_def split: json.splits)
  from assms obj have req: "list_all (\<lambda>f. nonEmptyText (getField c f)) requiredFields"
    and opt: "list_all (\<lambda>f. optionalText (getField c f)) optionalTextFields"
    and tid: "checkTopicID 0 c = []"
    and stamps: "optionalTimestamp (getField c ''createdAt'')"
      "optionalTimestamp (getField c ''updatedAt'')"
    by (auto simp: wellFormed_def checkTopicID_def split: option.splits)
  from req have "concat (map (checkRequired 0 c) requiredFields) = []"
    by (auto simp: list_all_iff nonEmptyText_required)
  then have "\<not> hasCriticalErrors (concat (map (checkRequired 0 c) requiredFields))"
    by (simp only: hasCriticalErrors_Nil not_False_eq_True)
  moreover from tid have "\<not> hasCriticalErrors (checkTopicID 0 c)"
    by (simp only: hasCriticalErrors_Nil not_False_eq_True)
  ultimately show "\<not> rejected c"
    using obj
    by (simp add: rejected_def conceptErrors_def hasCriticalErrors_append
        checkUnknown_not_critical checkDuplicate_not_critical)
  from opt have "trimmable c"
    by (simp add: trimmable_def list_all_iff optionalText_textOrNull)
  with stamps show "\<not> aborts c"
    by (simp add: aborts_def constructible_def optionalTimestamp_datable)
qed

lemma e_type_simps:
  "e_type notAnArray = Error" "e_type noConcepts = Warning"
  "e_type (unexpectedError e) = Error" "e_type (summaryInfo n) = Info"
  by (simp_all add: notAnArray_def noConcepts_def unexpectedError_def summaryInfo_def)

lemma errorLevel_critical: "(errorLevel es = []) = (\<not> hasCriticalErrors es)"
  by (simp add: errorLevel_def hasCriticalErrors_def list_ex_iff filter_empty_conv)

lemma errorLevel_append: "errorLevel (a @ b) = errorLevel a @ errorLevel b"
  by (simp add: errorLevel_def)

lemma validateParsed_not_array:
  "\<forall>xs. v \<noteq> JArray xs \<Longrightarrow>
     validateParsed clk v =
       \<lparr> isValid = False, errors = [notAnArray], validConcepts = [], totalConcepts = 0 \<rparr>"
  by (cases v) (simp_all add: validateParsed_def)

lemma validateParsed_empty:
  "validateParsed clk (JArray []) =
     \<lparr> isValid = False, errors = [noConcepts], validConcepts = [], totalConcepts = 0 \<rparr>"
  by (simp add: validateParsed_def)

lemma validateParsed_thrown:
  "xs \<noteq> [] \<Longrightarrow> forEachConcept clk 0 xs initialLoop = Inl (e, errs) \<Longrightarrow>
     validateParsed clk (JArray xs) =
       \<lparr> isValid = False, errors = errs @ [unexpectedError e], validConcepts = [],
         totalConcepts = length xs \<rparr>"
  by (simp add: validateParsed_def)

lemma validateParsed_returned:
  "xs \<noteq> [] \<Longrightarrow> forEachConcept clk 0 xs initialLoop = Inr s \<Longrightarrow>
     validateParsed clk (JArray xs) =
       \<lparr> isValid = (ls_validConcepts s \<noteq> [] \<and> errorLevel (ls_errors s) = []),
         errors = ls_errors s
                  @ (if ls_validConcepts s \<noteq> [] \<and> errorLevel (ls_errors s) = []
                     then [summaryInfo (length (ls_validConcepts s))] else []),
         validConcepts = ls_validConcepts s,
         totalConcepts = length xs \<rparr>"
  by (simp add: validateParsed_def Let_def errorLevel_def)

lemma isValid_characterised:
  "isValid (validateParsed clk v)
   = (validConcepts (validateParsed clk v) \<noteq> []
      \<and> errorLevel (errors (validateParsed clk v)) = [])"
proof (cases "\<exists>xs. v = JArray xs")
  case False
  then show ?thesis by (simp add: validateParsed_not_array)
next
  case True
  then obtain xs where v: "v = JArray xs" by blast
  show ?thesis
  proof (cases "xs = []")
    case True
    with v show ?thesis by (simp add: validateParsed_empty)
  next
    case False
    show ?thesis
    proof (cases "forEachConcept clk 0 xs initialLoop")
      case (Inl thrown)
      then obtain e errs where "forEachConcept clk 0 xs initialLoop = Inl (e, errs)"
        by (cases thrown) simp
      from validateParsed_thrown [OF False this] v show ?thesis by simp
    next
      case (Inr s)
      from validateParsed_returned [OF False Inr] v show ?thesis
        by (simp add: errorLevel_append errorLevel_def e_type_simps)
    qed
  qed
qed

lemma initialLoop_simps:
  "ls_errors initialLoop = []" "ls_validConcepts initialLoop = []"
  by (simp_all add: initialLoop_def)

lemma isValid_batch:
  "isValid (validateParsed clk (JArray xs))
   = (xs \<noteq> [] \<and> \<not> list_ex rejected xs \<and> \<not> list_ex aborts xs)"
proof (cases "xs = []")
  case True
  then show ?thesis by (simp add: validateParsed_empty)
next
  case False
  show ?thesis
  proof (cases "forEachConcept clk 0 xs initialLoop")
    case (Inl thrown)
    then obtain e errs where run: "forEachConcept clk 0 xs initialLoop = Inl (e, errs)"
      by (cases thrown) simp
    with forEachConcept_returns [of clk 0 xs initialLoop] have "list_ex aborts xs"
      by simp
    with validateParsed_thrown [OF False run] show ?thesis by simp
  next
    case (Inr s)
    with forEachConcept_returns [of clk 0 xs initialLoop] have none: "\<not> list_ex aborts xs"
      by auto
    from forEachConcept_outcome [OF Inr]
    have "hasCriticalErrors (ls_errors s) = list_ex rejected xs"
      and len: "length (ls_validConcepts s) = length (filter (\<lambda>c. \<not> rejected c) xs)"
      by (simp_all add: initialLoop_simps hasCriticalErrors_Nil)
    moreover have "ls_validConcepts s \<noteq> []" if "\<not> list_ex rejected xs"
    proof -
      from that have "filter (\<lambda>c. \<not> rejected c) xs = xs"
        by (simp add: list_ex_iff)
      with len False show ?thesis by auto
    qed
    ultimately show ?thesis
      using validateParsed_returned [OF False Inr] False none
      by (auto simp: errorLevel_critical)
  qed
qed

lemma accepted_batch:
  assumes "\<not> list_ex rejected xs" and "\<not> list_ex aborts xs"
  shows "length (validConcepts (validateParsed clk (JArray xs))) = length xs"
proof (cases "xs = []")
  case True
  then show ?thesis by (simp add: validateParsed_empty)
next
  case False
  from assms(2) forEachConcept_returns [of clk 0 xs initialLoop] obtain s where
    run: "forEachConcept clk 0 xs initialLoop = Inr s" by blast
  from assms(1) have "filter (\<lambda>c. \<not> rejected c) xs = xs"
    by (simp add: list_ex_iff)
  with forEachConcept_outcome [OF run] validateParsed_returned [OF False run]
  show ?thesis by (simp add: initialLoop_simps)
qed

text \<open>
  Claim C1. The validity flag of a result is: some record is accepted and no
  diagnostic of the result is of level error. Hence a non-empty batch of well-formed
  records is valid and all its records are accepted, and a batch holding a record
  with a record-level error is not valid, whatever its other records are. In full, a
  parsed batch is valid when it is not empty, no record has a record-level error and
  no record aborts the validation.
\<close>

theorem validity_flag:
  "isValid (validateJsonContent JSON_parse clk content)
     = (validConcepts (validateJsonContent JSON_parse clk content) \<noteq> []
        \<and> errorLevel (errors (validateJsonContent JSON_parse clk content)) = [])
   \<and> (JSON_parse content = Inr (JArray xs) \<and> xs \<noteq> [] \<and> list_all wellFormed xs \<longrightarrow>
        isValid (validateJsonContent JSON_parse clk content)
        \<and> length (validConcepts (validateJsonContent JSON_parse clk content)) = length xs)
   \<and> (JSON_parse content = Inr (JArray xs) \<and> list_ex rejected xs \<longrightarrow>
        \<not> isValid (validateJsonContent JSON_parse clk content))
   \<and> (JSON_parse content = Inr (JArray xs) \<longrightarrow>
        isValid (validateJsonContent JSON_parse clk content)
        = (xs \<noteq> [] \<and> \<not> list_ex rejected xs \<and> \<not> list_ex aborts xs))
   \<and> validateJson JSON_parse clk content = validateJsonContent JSON_parse clk content"
proof (cases "JSON_parse content")
  case (Inl detail)
  then show ?thesis
    by (simp add: validateJsonContent_def validateJson_def errorLevel_def parseFailure_def)
next
  case (Inr v)
  then have eq: "validateJsonContent JSON_parse clk content = validateParsed clk v"
    by (simp add: validateJsonContent_def)
  have clean: "\<not> list_ex rejected xs \<and> \<not> list_ex aborts xs" if "list_all wellFormed xs"
    using that by (auto simp: list_all_iff list_ex_iff wellFormed_accepted)
  from Inr show ?thesis
    unfolding eq validateJson_def
    using isValid_characterised [of clk v] isValid_batch [of clk xs] accepted_batch [of xs clk]
      clean
    by (auto simp: validateJsonContent_def)
qed

theorem validity_flag_witness:
  "isValid (validateJsonContent exampleParse clockZero scenarioText)
   \<and> length (validConcepts (validateJsonContent exampleParse clockZero scenarioText)) = 2
   \<and> list_all wellFormed scenarioBatch
   \<and> list_ex rejected [recordA, recordBlankTopic]
   \<and> \<not> rejected recordA
   \<and> \<not> isValid (validateJsonContent exampleParse clockZero mixedText)
   \<and> list_ex aborts [recordOddDate]
   \<and> \<not> wellFormed recordOddDate
   \<and> \<not> isValid (validateJsonContent exampleParse clockZero oddDateText)"
proof -
  have p1: "exampleParse scenarioText = Inr (JArray scenarioBatch)"
    by code_simp
  have p2: "exampleParse mixedText = Inr (JArray [recordA, recordBlankTopic])"
    by code_simp
  have p3: "exampleParse oddDateText = Inr (JArray [recordOddDate])"
    by code_simp
  have h1: "scenarioBatch \<noteq> []" "list_all wellFormed scenarioBatch" "length scenarioBatch = 2"
    by code_simp+
  have h2: "list_ex rejected [recordA, recordBlankTopic]" "\<not> rejected recordA"
    by code_simp+
  have h3: "list_ex aborts [recordOddDate]" "\<not> wellFormed recordOddDate"
    by code_simp+
  from validity_flag [where JSON_parse = exampleParse and clk = clockZero
         and content = scenarioText and xs = scenarioBatch] p1 h1
  have a: "isValid (validateJsonContent exampleParse clockZero scenarioText)
           \<and> length (validConcepts (validateJsonContent exampleParse clockZero scenarioText))
               = length scenarioBatch"
    by blast
  from validity_flag [where JSON_parse = exampleParse and clk = clockZero
         and content = mixedText and xs = "[recordA, recordBlankTopic]"] p2 h2
  have b: "\<not> isValid (validateJsonContent exampleParse clockZero mixedText)"
    by blast
  from validity_flag [where JSON_parse = exampleParse and clk = clockZero
         and content = oddDateText and xs = "[recordOddDate]"] p3 h3
  have c: "\<not> isValid (validateJsonContent exampleParse clockZero oddDateText)"
    by blast
  from a b c h1 h2 h3 show ?thesis by simp
qed

subsection \<open>The validator and the clock\<close>

lemma dateOrNow_stamped:
  "truthy (getField c f) \<Longrightarrow>
     dateOrNow clk r c f = bindE (newDate (the (getField c f))) (\<lambda>d. Inr (d, r))"
  by (cases "getField c f") (simp_all add: dateOrNow_def)

lemma dateOrNow_clock:
  "(\<exists>e. dateOrNow clkA rA c f = Inl e \<and> dateOrNow clkB rB c f = Inl e)
   \<or> (\<exists>d1 r1 d2 r2. dateOrNow clkA rA c f = Inr (d1, r1) \<and> dateOrNow clkB rB c f = Inr (d2, r2))"
  by (simp add: dateOrNow_def newDate_def bindE_def split: option.splits)

lemma buildConcept_clock:
  assumes "full \<longrightarrow> stamped c"
  shows "(\<exists>e. buildConcept clkA rA c = Inl e \<and> buildConcept clkB rB c = Inl e)
         \<or> (\<exists>x y r1 r2. buildConcept clkA rA c = Inr (x, r1)
               \<and> buildConcept clkB rB c = Inr (y, r2) \<and> agree full x y)"
proof (cases full)
  case True
  with assms have "truthy (getField c ''createdAt'')" "truthy (getField c ''updatedAt'')"
    by (simp_all add: stamped_def)
  with True show ?thesis
    by (simp add: buildConcept_def bindE_def agree_def dateOrNow_stamped split: sum.splits)
next
  case False
  from dateOrNow_clock [of clkA rA c "''createdAt''" clkB rB] show ?thesis
  proof (elim disjE exE conjE)
    fix e
    assume "dateOrNow clkA rA c ''createdAt'' = Inl e" "dateOrNow clkB rB c ''createdAt'' = Inl e"
    then show ?thesis
      by (simp add: buildConcept_def bindE_def split: sum.splits)
  next
    fix d1 r1 d2 r2
    assume created: "dateOrNow clkA rA c ''createdAt'' = Inr (d1, r1)"
      "dateOrNow clkB rB c ''createdAt'' = Inr (d2, r2)"
    from dateOrNow_clock [of clkA r1 c "''updatedAt''" clkB r2] show ?thesis
    proof (elim disjE exE conjE)
      fix e
      assume "dateOrNow clkA r1 c ''updatedAt'' = Inl e"
        "dateOrNow clkB r2 c ''updatedAt'' = Inl e"
      with created show ?thesis
        by (simp add: buildConcept_def bindE_def split: sum.splits)
    next
      fix d3 r3 d4 r4
      assume "dateOrNow clkA r1 c ''updatedAt'' = Inr (d3, r3)"
        "dateOrNow clkB r2 c ''updatedAt'' = Inr (d4, r4)"
      with created False show ?thesis
        by (simp add: buildConcept_def bindE_def agree_def withoutTimestamps_def
            split: sum.splits)
    qed
  qed
qed

lemma validateConcept_clock:
  assumes "full \<longrightarrow> stamped c"
    and "ls_errors s = ls_errors t" and "ls_seenTitles s = ls_seenTitles t"
    and "list_all2 (agree full) (ls_validConcepts s) (ls_validConcepts t)"
  shows "(\<exists>e errs. validateConcept clkA i c s = Inl (e, errs)
            \<and> validateConcept clkB i c t = Inl (e, errs))
         \<or> (\<exists>s' t'. validateConcept clkA i c s = Inr s' \<and> validateConcept clkB i c t = Inr t'
               \<and> ls_errors s' = ls_errors t' \<and> ls_seenTitles s' = ls_seenTitles t'
               \<and> list_all2 (agree full) (ls_validConcepts s') (ls_validConcepts t'))"
proof (cases "isObjectLike c \<and> \<not> hasCriticalErrors (conceptErrors (ls_seenTitles t) i c)")
  case False
  with assms(2-4) show ?thesis
    by (auto simp: validateConcept_def Let_def)
next
  case True
  from buildConcept_clock [OF assms(1), of clkA "ls_reads s" clkB "ls_reads t"]
  show ?thesis
  proof (elim disjE exE conjE)
    fix e
    assume "buildConcept clkA (ls_reads s) c = Inl e" "buildConcept clkB (ls_reads t) c = Inl e"
    with True assms(2-4) show ?thesis
      by (simp add: validateConcept_def Let_def)
  next
    fix x y r1 r2
    assume "buildConcept clkA (ls_reads s) c = Inr (x, r1)"
      "buildConcept clkB (ls_reads t) c = Inr (y, r2)" "agree full x y"
    with True assms(2-4) show ?thesis
      by (simp add: validateConcept_def Let_def list_all2_appendI)
  qed
qed

lemma forEachConcept_clock:
  assumes "full \<longrightarrow> list_all stamped xs"
    and "ls_errors s = ls_errors t" and "ls_seenTitles s = ls_seenTitles t"
    and "list_all2 (agree full) (ls_validConcepts s) (ls_validConcepts t)"
  shows "(\<exists>e errs. forEachConcept clkA i xs s = Inl (e, errs)
            \<and> forEachConcept clkB i xs t = Inl (e, errs))
         \<or> (\<exists>s' t'. forEachConcept clkA i xs s = Inr s' \<and> forEachConcept clkB i xs t = Inr t'
               \<and> ls_errors s' = ls_errors t'
               \<and> list_all2 (agree full) (ls_validConcepts s') (ls_validConcepts t'))"
  using assms
proof (induction xs arbitrary: i s t)
  case Nil
  then show ?case by simp
next
  case (Cons c rest)
  from Cons.prems(1) have c: "full \<longrightarrow> stamped c" and rest: "full \<longrightarrow> list_all stamped rest"
    by simp_all
  from validateConcept_clock [OF c Cons.prems(2-4), of clkA i clkB]
  show ?case
  proof (elim disjE exE conjE)
    fix e errs
    assume "validateConcept clkA i c s = Inl (e, errs)"
      "validateConcept clkB i c t = Inl (e, errs)"
    then show ?thesis by simp
  next
    fix s' t'
    assume step: "validateConcept clkA i c s = Inr s'" "validateConcept clkB i c t = Inr t'"
      and rel: "ls_errors s' = ls_errors t'" "ls_seenTitles s' = ls_seenTitles t'"
        "list_all2 (agree full) (ls_validConcepts s') (ls_validConcepts t')"
    from Cons.IH [OF rest rel, of "Suc i"] step show ?thesis by simp
  qed
qed

lemma validateParsed_clock:
  assumes "full \<longrightarrow> (\<forall>xs. v = JArray xs \<longrightarrow> list_all stamped xs)"
  shows "isValid (validateParsed clkA v) = isValid (validateParsed clkB v)
         \<and> errors (validateParsed clkA v) = errors (validateParsed clkB v)
         \<and> totalConcepts (validateParsed clkA v) = totalConcepts (validateParsed clkB v)
         \<and> list_all2 (agree full) (validConcepts (validateParsed clkA v))
              (validConcepts (validateParsed clkB v))"
proof (cases "\<exists>xs. v = JArray xs \<and> xs \<noteq> []")
  case False
  then show ?thesis by (cases v) (auto simp: validateParsed_def)
next
  case True
  then obtain xs where v: "v = JArray xs" and ne: "xs \<noteq> []" by blast
  from assms v have st: "full \<longrightarrow> list_all stamped xs" by simp
  have init: "list_all2 (agree full) (ls_validConcepts initialLoop) (ls_validConcepts initialLoop)"
    by (simp add: initialLoop_def)
  from forEachConcept_clock [OF st refl refl init, of clkA 0 clkB]
  show ?thesis
  proof (elim disjE exE conjE)
    fix e errs
    assume "forEachConcept clkA 0 xs initialLoop = Inl (e, errs)"
      "forEachConcept clkB 0 xs initialLoop = Inl (e, errs)"
    with v ne show ?thesis by (simp add: validateParsed_thrown)
  next
    fix s' t'
    assume run: "forEachConcept clkA 0 xs initialLoop = Inr s'"
      "forEachConcept clkB 0 xs initialLoop = Inr t'"
      and rel: "ls_errors s' = ls_errors t'"
        "list_all2 (agree full) (ls_validConcepts s') (ls_validConcepts t')"
    from rel(2) have "length (ls_validConcepts s') = length (ls_validConcepts t')"
      by (rule list_all2_lengthD)
    with v ne run rel show ?thesis
      by (auto simp: validateParsed_returned)
  qed
qed


lemma agree_full: "list_all2 (agree True) xs ys \<Longrightarrow> xs = ys"
  by (induction rule: list_all2_induct) (simp_all add: agree_def)

lemma agree_timestamps:
  "list_all2 (agree False) xs ys \<Longrightarrow> map withoutTimestamps xs = map withoutTimestamps ys"
  by (induction rule: list_all2_induct) (simp_all add: agree_def)

lemma dateOrNow_value:
  "dateOrNow clk r c f = Inr (d, r') \<Longrightarrow> timestampFrom clk (getField c f) (Some d)"
  by (auto simp: dateOrNow_def newDate_def bindE_def timestampFrom_def
      split: option.splits if_splits)

lemma buildConcept_timestamps:
  assumes "buildConcept clk r c = Inr (x, r')"
  shows "timestampsFrom clk x c"
proof -
  from assms obtain d1 r1 d2 where
    "dateOrNow clk r c ''createdAt'' = Inr (d1, r1)"
    "dateOrNow clk r1 c ''updatedAt'' = Inr (d2, r')"
    "c_createdAt x = Some d1" "c_updatedAt x = Some d2"
    by (auto simp: buildConcept_def bindE_def split: sum.splits prod.splits)
  then show ?thesis
    using dateOrNow_value [of clk r c "''createdAt''" d1 r1]
      dateOrNow_value [of clk r1 c "''updatedAt''" d2 r']
    by (simp add: timestampsFrom_def)
qed

lemma validateConcept_timestamps:
  assumes "validateConcept clk i c s = Inr s'"
  shows "if rejected c then ls_validConcepts s' = ls_validConcepts s
         else \<exists>x. ls_validConcepts s' = ls_validConcepts s @ [x] \<and> timestampsFrom clk x c"
proof (cases "isObjectLike c")
  case False
  with assms show ?thesis
    by (auto simp: validateConcept_def rejected_def)
next
  case True
  then have crit: "hasCriticalErrors (conceptErrors (ls_seenTitles s) i c) = rejected c"
    using conceptErrors_critical [of "ls_seenTitles s" i c] by (simp add: rejected_def)
  show ?thesis
  proof (cases "rejected c")
    case rej: True
    with crit True assms show ?thesis
      by (auto simp: validateConcept_def Let_def)
  next
    case acc: False
    with crit True assms obtain x r' where
      "buildConcept clk (ls_reads s) c = Inr (x, r')"
      "ls_validConcepts s' = ls_validConcepts s @ [x]"
      by (auto simp: validateConcept_def Let_def split: sum.splits)
    with acc buildConcept_timestamps show ?thesis by auto
  qed
qed

lemma forEachConcept_timestamps:
  "forEachConcept clk i xs s = Inr s' \<Longrightarrow>
     list_all2 (timestampsFrom clk) (ls_validConcepts s) ys \<Longrightarrow>
     list_all2 (timestampsFrom clk) (ls_validConcepts s')
       (ys @ filter (\<lambda>c. \<not> rejected c) xs)"
proof (induction xs arbitrary: i s ys)
  case Nil
  then show ?case by simp
next
  case (Cons c rest)
  from Cons.prems(1) obtain s1 where
    step: "validateConcept clk i c s = Inr s1" and
    loop: "forEachConcept clk (Suc i) rest s1 = Inr s'"
    by (auto split: sum.splits)
  show ?case
  proof (cases "rejected c")
    case True
    with validateConcept_timestamps [OF step] Cons.prems(2)
    have "list_all2 (timestampsFrom clk) (ls_validConcepts s1) ys" by simp
    from Cons.IH [OF loop this] True show ?thesis by simp
  next
    case False
    with validateConcept_timestamps [OF step] obtain x where
      "ls_validConcepts s1 = ls_validConcepts s @ [x]" "timestampsFrom clk x c"
      by auto
    with Cons.prems(2) have "list_all2 (timestampsFrom clk) (ls_validConcepts s1) (ys @ [c])"
      by (simp add: list_all2_appendI)
    from Cons.IH [OF loop this] False show ?thesis by simp
  qed
qed

lemma validateParsed_timestamps:
  assumes "\<not> list_ex aborts xs"
  shows "list_all2 (timestampsFrom clk) (validConcepts (validateParsed clk (JArray xs)))
           (filter (\<lambda>c. \<not> rejected c) xs)"
proof (cases "xs = []")
  case True
  then show ?thesis by (simp add: validateParsed_empty)
next
  case False
  from assms forEachConcept_returns [of clk 0 xs initialLoop] obtain s where
    run: "forEachConcept clk 0 xs initialLoop = Inr s" by blast
  from forEachConcept_timestamps [OF run, of "[]"] validateParsed_returned [OF False run]
  show ?thesis by (simp add: initialLoop_simps)
qed

text \<open>
  Claim C4, as amended. Run twice on the same text, at different readings of the
  clock, the validator gives the same validity flag, the same diagnostics, the same
  count and accepted records that agree in every field but \<^verbatim>\<open>createdAt\<close> and
  \<^verbatim>\<open>updatedAt\<close>. In a batch that is not aborted, each of the two timestamps of an
  accepted record is the date made of the value the input gives when that value is
  truthy, and a reading of the clock of that run when it is absent or falsy. So when
  every record of the input carries both timestamps the two results are identical.
\<close>

theorem validator_clock_independence:
  "isValid (validateJsonContent JSON_parse clkA content)
     = isValid (validateJsonContent JSON_parse clkB content)
   \<and> errors (validateJsonContent JSON_parse clkA content)
     = errors (validateJsonContent JSON_parse clkB content)
   \<and> totalConcepts (validateJsonContent JSON_parse clkA content)
     = totalConcepts (validateJsonContent JSON_parse clkB content)
   \<and> map withoutTimestamps (validConcepts (validateJsonContent JSON_parse clkA content))
     = map withoutTimestamps (validConcepts (validateJsonContent JSON_parse clkB content))
   \<and> (JSON_parse content = Inr (JArray xs) \<and> \<not> list_ex aborts xs \<longrightarrow>
        list_all2 (timestampsFrom clkA)
          (validConcepts (validateJsonContent JSON_parse clkA content))
          (filter (\<lambda>c. \<not> rejected c) xs))
   \<and> ((\<forall>xs. JSON_parse content = Inr (JArray xs) \<longrightarrow> list_all stamped xs) \<longrightarrow>
        validateJsonContent JSON_parse clkA content
        = validateJsonContent JSON_parse clkB content)"
proof (cases "JSON_parse content")
  case (Inl detail)
  then show ?thesis by (simp add: validateJsonContent_def)
next
  case (Inr v)
  then have eq: "validateJsonContent JSON_parse clk content = validateParsed clk v" for clk
    by (simp add: validateJsonContent_def)
  from validateParsed_clock [of False v clkA clkB]
  have part: "isValid (validateParsed clkA v) = isValid (validateParsed clkB v)"
    "errors (validateParsed clkA v) = errors (validateParsed clkB v)"
    "totalConcepts (validateParsed clkA v) = totalConcepts (validateParsed clkB v)"
    "map withoutTimestamps (validConcepts (validateParsed clkA v))
     = map withoutTimestamps (validConcepts (validateParsed clkB v))"
    by (simp_all add: agree_timestamps)
  have whole: "validateParsed clkA v = validateParsed clkB v"
    if "\<forall>xs. v = JArray xs \<longrightarrow> list_all stamped xs"
  proof -
    from validateParsed_clock [of True v clkA clkB] that
    have "validConcepts (validateParsed clkA v) = validConcepts (validateParsed clkB v)"
      by (simp add: agree_full)
    with part show ?thesis by (simp add: validation_result.equality)
  qed
  have stamps: "list_all2 (timestampsFrom clkA) (validConcepts (validateParsed clkA v))
                  (filter (\<lambda>c. \<not> rejected c) xs)"
    if "v = JArray xs" "\<not> list_ex aborts xs"
    using that validateParsed_timestamps [of xs clkA] by simp
  from part whole stamps Inr show ?thesis
    unfolding eq by simp
qed

theorem validator_clock_independence_witness:
  "errors (validateJsonContent exampleParse clockZero scenarioText)
     = errors (validateJsonContent exampleParse clockOne scenarioText)
   \<and> map withoutTimestamps (validConcepts (validateJsonContent exampleParse clockZero scenarioText))
     = map withoutTimestamps (validConcepts (validateJsonContent exampleParse clockOne scenarioText))
   \<and> list_all2 (timestampsFrom clockOne)
       (validConcepts (validateJsonContent exampleParse clockOne scenarioText))
       (filter (\<lambda>c. \<not> rejected c) scenarioBatch)
   \<and> map c_createdAt (validConcepts (validateJsonContent exampleParse clockOne scenarioText))
     = [Some (DateNow 1), Some (DateNow 1)]
   \<and> list_all stamped [recordStamped]
   \<and> validateJsonContent exampleParse clockZero stampedText
     = validateJsonContent exampleParse clockOne stampedText"
proof -
  have p: "exampleParse stampedText = Inr (JArray [recordStamped])"
    "exampleParse scenarioText = Inr (JArray scenarioBatch)"
    by code_simp+
  have h: "list_all stamped [recordStamped]" "\<not> list_ex aborts scenarioBatch"
    by code_simp+
  have v: "map c_createdAt (validConcepts (validateJsonContent exampleParse clockOne scenarioText))
           = [Some (DateNow 1), Some (DateNow 1)]"
    by code_simp
  note a = validator_clock_independence
         [where JSON_parse = exampleParse and clkA = clockZero and clkB = clockOne
            and content = scenarioText]
  note b = validator_clock_independence
         [where JSON_parse = exampleParse and clkA = clockOne and clkB = clockZero
            and content = scenarioText and xs = scenarioBatch]
  note c = validator_clock_independence
         [where JSON_parse = exampleParse and clkA = clockZero and clkB = clockOne
            and content = stampedText]
  from a have a': "errors (validateJsonContent exampleParse clockZero scenarioText)
     = errors (validateJsonContent exampleParse clockOne scenarioText)"
    "map withoutTimestamps (validConcepts (validateJsonContent exampleParse clockZero scenarioText))
     = map withoutTimestamps (validConcepts (validateJsonContent exampleParse clockOne scenarioText))"
    by blast+
  from b p(2) h(2) have b': "list_all2 (timestampsFrom clockOne)
       (validConcepts (validateJsonContent exampleParse clockOne scenarioText))
       (filter (\<lambda>c. \<not> rejected c) scenarioBatch)"
    by blast
  from c p(1) h(1) have c': "validateJsonContent exampleParse clockZero stampedText
     = validateJsonContent exampleParse clockOne stampedText"
    by simp
  from a' b' c' v h(1) show ?thesis by simp
qed

text \<open>
  The claim as stated fails: the records of the scenario carry no timestamp, and the
  results of two runs at different times differ.
\<close>

theorem validator_reads_clock:
  "validateJsonContent exampleParse clockZero scenarioText
   \<noteq> validateJsonContent exampleParse clockOne scenarioText"
  by code_simp

subsection \<open>Diagnostics of the required fields\<close>

lemma fieldDiagnostics_append:
  "fieldDiagnostics (a @ b) i f = fieldDiagnostics a i f @ fieldDiagnostics b i f"
  by (simp add: fieldDiagnostics_def)

lemma fieldDiagnostics_Nil: "fieldDiagnostics [] i f = []"
  by (simp add: fieldDiagnostics_def)

lemma checkRequired_expected:
  "checkRequired i c f = expectedDiagnostics i f (getField c f)"
proof (cases "getField c f")
  case None
  then show ?thesis by (simp add: checkRequired_def)
next
  case (Some v)
  then show ?thesis by (cases v) (simp_all add: checkRequired_def)
qed

lemma expectedDiagnostics_fields:
  assumes "e \<in> set (expectedDiagnostics k g v)"
  shows "e_type e = Error \<and> e_conceptIndex e = Some k \<and> e_field e = Some g"
proof (cases v)
  case None
  with assms show ?thesis
    by (simp add: missingField_def)
next
  case (Some w)
  with assms show ?thesis
    by (cases w) (auto simp: missingField_def mustBeString_def cannotBeEmpty_def split: if_splits)
qed

lemma fieldDiagnostics_expected:
  "fieldDiagnostics (expectedDiagnostics k g v) i f
   = (if k = i \<and> g = f then expectedDiagnostics k g v else [])"
proof (cases "k = i \<and> g = f")
  case True
  then have "filter (\<lambda>e. e_type e = Error \<and> e_conceptIndex e = Some i \<and> e_field e = Some f)
               (expectedDiagnostics k g v) = expectedDiagnostics k g v"
    using expectedDiagnostics_fields [of _ k g v] by (auto simp: filter_id_conv)
  with True show ?thesis by (simp add: fieldDiagnostics_def)
next
  case False
  then have "filter (\<lambda>e. e_type e = Error \<and> e_conceptIndex e = Some i \<and> e_field e = Some f)
               (expectedDiagnostics k g v) = []"
    using expectedDiagnostics_fields [of _ k g v] by (auto simp: filter_empty_conv)
  with False show ?thesis by (auto simp: fieldDiagnostics_def)
qed

lemma fieldDiagnostics_required:
  assumes "f \<in> set requiredFields"
  shows "fieldDiagnostics (concat (map (checkRequired k c) requiredFields)) i f
         = (if k = i then expectedDiagnostics i f (getField c f) else [])"
  using assms
  by (auto simp: requiredFields_def fieldDiagnostics_append fieldDiagnostics_Nil
      checkRequired_expected fieldDiagnostics_expected)

lemma fieldDiagnostics_warnings:
  "fieldDiagnostics (checkUnknown k c) i f = []"
  "fieldDiagnostics (checkDuplicate seen k c) i f = []"
  by (auto simp: fieldDiagnostics_def checkUnknown_def unknownField_def checkDuplicate_def
      duplicateTitle_def filter_empty_conv split: option.splits json.splits)

lemma fieldDiagnostics_topicID:
  "f \<in> set requiredFields \<Longrightarrow> fieldDiagnostics (checkTopicID k c) i f = []"
  by (auto simp: fieldDiagnostics_def checkTopicID_def topicIDNotNumber_def requiredFields_def)

lemma fieldDiagnostics_conceptErrors:
  "f \<in> set requiredFields \<Longrightarrow>
     fieldDiagnostics (conceptErrors seen k c) i f
     = (if k = i then expectedDiagnostics i f (getField c f) else [])"
  by (simp add: conceptErrors_def fieldDiagnostics_append fieldDiagnostics_required
      fieldDiagnostics_warnings fieldDiagnostics_topicID)

lemma fieldDiagnostics_other:
  "fieldDiagnostics [notAnObject k] i f = []" "fieldDiagnostics [summaryInfo n] i f = []"
  by (simp_all add: fieldDiagnostics_def notAnObject_def summaryInfo_def)

lemma validateConcept_pushed:
  "pushed (validateConcept clk k c s)
   = ls_errors s @ (if isObjectLike c then conceptErrors (ls_seenTitles s) k c
                    else [notAnObject k])"
  by (simp add: validateConcept_def pushed_def Let_def split: sum.splits prod.splits)

lemma validateConcept_thrown:
  "validateConcept clk k c s = Inl t \<Longrightarrow> aborts c"
  using validateConcept_returns [of clk k c s] by auto

lemma validateConcept_fieldDiagnostics:
  assumes "f \<in> set requiredFields"
  shows "fieldDiagnostics (pushed (validateConcept clk k c s)) i f
         = fieldDiagnostics (ls_errors s) i f
           @ (if k = i \<and> isObjectLike c then expectedDiagnostics i f (getField c f) else [])"
  using assms
  by (simp add: validateConcept_pushed fieldDiagnostics_append fieldDiagnostics_other
      fieldDiagnostics_conceptErrors)

lemma forEachConcept_fieldDiagnostics:
  assumes "f \<in> set requiredFields" and "\<not> list_ex aborts (take (i - k) xs)"
  shows "fieldDiagnostics (pushed (forEachConcept clk k xs s)) i f
         = fieldDiagnostics (ls_errors s) i f
           @ (if k \<le> i \<and> i < k + length xs \<and> isObjectLike (xs ! (i - k))
              then expectedDiagnostics i f (getField (xs ! (i - k)) f) else [])"
  using assms(2)
proof (induction xs arbitrary: k s)
  case Nil
  then show ?case by (auto simp: pushed_def)
next
  case (Cons c rest)
  note a = validateConcept_fieldDiagnostics
    [OF assms(1), where clk = clk and k = k and c = c and s = s and i = i]
  show ?case
  proof (cases "validateConcept clk k c s")
    case (Inl t)
    then have ab: "aborts c" by (rule validateConcept_thrown)
    have "\<not> k < i"
    proof
      assume "k < i"
      then have "i - k = Suc (i - Suc k)" by arith
      with Cons.prems ab show False by simp
    qed
    with a Inl ab show ?thesis by (auto simp: aborts_def)
  next
    case (Inr s1)
    have rest: "\<not> list_ex aborts (take (i - Suc k) rest)"
    proof (cases "k < i")
      case True
      then have "i - k = Suc (i - Suc k)" by arith
      with Cons.prems show ?thesis by simp
    next
      case False
      then show ?thesis by simp
    qed
    from a Inr have a': "fieldDiagnostics (ls_errors s1) i f
         = fieldDiagnostics (ls_errors s) i f
           @ (if k = i \<and> isObjectLike c then expectedDiagnostics i f (getField c f) else [])"
      by (simp add: pushed_def)
    note b = Cons.IH [OF rest, of s1]
    show ?thesis
    proof (cases "k = i")
      case True
      with a' b Inr show ?thesis by simp
    next
      case False
      have "(c # rest) ! (i - k) = rest ! (i - Suc k)" if "k \<le> i"
      proof -
        from that False have "i - k = Suc (i - Suc k)" by arith
        then show ?thesis by simp
      qed
      with False a' b Inr show ?thesis by auto
    qed
  qed
qed

lemma validateParsed_errors:
  assumes "xs \<noteq> []"
  shows "\<exists>extra. errors (validateParsed clk (JArray xs))
                   = pushed (forEachConcept clk 0 xs initialLoop) @ extra
                 \<and> (\<forall>e \<in> set extra. e_field e = None)"
proof (cases "forEachConcept clk 0 xs initialLoop")
  case (Inl thrown)
  then obtain e errs where run: "forEachConcept clk 0 xs initialLoop = Inl (e, errs)"
    by (cases thrown) simp
  from validateParsed_thrown [OF assms run] run show ?thesis
    by (simp add: pushed_def unexpectedError_def)
next
  case (Inr s)
  from validateParsed_returned [OF assms Inr] Inr show ?thesis
    by (simp add: pushed_def summaryInfo_def)
qed

lemma fieldDiagnostics_unnamed:
  "\<forall>e \<in> set extra. e_field e = None \<Longrightarrow> fieldDiagnostics extra i f = []"
  by (auto simp: fieldDiagnostics_def filter_empty_conv)

lemma diagnostics_distinct:
  "missingField i f \<noteq> mustBeString i f" "missingField i f \<noteq> cannotBeEmpty i f"
  "mustBeString i f \<noteq> cannotBeEmpty i f"
  by (simp_all add: missingField_def mustBeString_def cannotBeEmpty_def)

lemma expectedDiagnostics_length: "length (expectedDiagnostics i f v) \<le> 1"
proof (cases v)
  case None
  then show ?thesis by simp
next
  case (Some w)
  then show ?thesis by (cases w) simp_all
qed

text \<open>
  Claim C2, as amended. For a record of a batch that no earlier record aborts, the
  error-level diagnostics that name the record and one of its required fields are
  none when the record is not an object, and otherwise: the
  `missing' diagnostic alone when the value of the field is falsy (absent, \<^verbatim>\<open>null\<close>,
  \<^verbatim>\<open>false\<close>, zero or the empty string), the `wrong type' diagnostic alone when it
  is truthy and not a string, the `empty' diagnostic alone when it is a string that is
  not empty but is once trimmed, and none otherwise. The three diagnostics differ, and
  at most one is given.
\<close>

theorem required_field_diagnostics:
  assumes "JSON_parse content = Inr (JArray xs)" and "\<not> list_ex aborts (take i xs)"
    and "i < length xs" and "f \<in> set requiredFields"
  shows "fieldDiagnostics (errors (validateJsonContent JSON_parse clk content)) i f
           = (if isObjectLike (xs ! i) then expectedDiagnostics i f (getField (xs ! i) f)
              else [])
         \<and> fieldDiagnostics (errors (validateJson JSON_parse clk content)) i f
           = (if isObjectLike (xs ! i) then expectedDiagnostics i f (getField (xs ! i) f)
              else [])
         \<and> length (expectedDiagnostics i f (getField (xs ! i) f)) \<le> 1
         \<and> missingField i f \<noteq> mustBeString i f
         \<and> missingField i f \<noteq> cannotBeEmpty i f
         \<and> mustBeString i f \<noteq> cannotBeEmpty i f"
proof -
  from assms(3) have ne: "xs \<noteq> []" by auto
  from validateParsed_errors [OF ne, of clk] obtain extra where
    split: "errors (validateParsed clk (JArray xs))
            = pushed (forEachConcept clk 0 xs initialLoop) @ extra"
    and unnamed: "\<forall>e \<in> set extra. e_field e = None"
    by blast
  from assms(2) have "\<not> list_ex aborts (take (i - 0) xs)" by simp
  from forEachConcept_fieldDiagnostics [OF assms(4) this, where clk = clk and s = initialLoop]
    assms(3)
  have "fieldDiagnostics (pushed (forEachConcept clk 0 xs initialLoop)) i f
        = (if isObjectLike (xs ! i) then expectedDiagnostics i f (getField (xs ! i) f) else [])"
    by (simp add: initialLoop_simps fieldDiagnostics_Nil)
  with split fieldDiagnostics_unnamed [OF unnamed, of i f]
  have "fieldDiagnostics (errors (validateParsed clk (JArray xs))) i f
        = (if isObjectLike (xs ! i) then expectedDiagnostics i f (getField (xs ! i) f) else [])"
    by (simp add: fieldDiagnostics_append)
  with assms(1) expectedDiagnostics_length [of i f "getField (xs ! i) f"] show ?thesis
    by (simp add: validateJsonContent_def validateJson_def diagnostics_distinct)
qed

theorem required_field_diagnostics_witness:
  "fieldDiagnostics (errors (validateJsonContent exampleParse clockZero mixedText)) 1 ''topic''
     = [cannotBeEmpty 1 ''topic'']
   \<and> fieldDiagnostics (errors (validateJsonContent exampleParse clockZero mixedText)) 0 ''topic''
     = []
   \<and> fieldDiagnostics (errors (validateJsonContent exampleParse clockZero untitledWhyNeedText))
       1 ''title''
     = [missingField 1 ''title'']
   \<and> \<not> trimmable recordUntitledWhyNeed
   \<and> \<not> aborts recordUntitledWhyNeed"
proof -
  have p: "exampleParse mixedText = Inr (JArray [recordA, recordBlankTopic])"
    "exampleParse untitledWhyNeedText = Inr (JArray [recordUntitledWhyNeed, recordEmptyTitle])"
    by code_simp+
  have h: "\<not> list_ex aborts (take 1 [recordA, recordBlankTopic])"
    "\<not> list_ex aborts (take 0 [recordA, recordBlankTopic])"
    "(1::nat) < length [recordA, recordBlankTopic]" "(0::nat) < length [recordA, recordBlankTopic]"
    "isObjectLike ([recordA, recordBlankTopic] ! 1)" "isObjectLike ([recordA, recordBlankTopic] ! 0)"
    "''topic'' \<in> set requiredFields"
    by code_simp+
  have g: "\<not> list_ex aborts (take 1 [recordUntitledWhyNeed, recordEmptyTitle])"
    "(1::nat) < length [recordUntitledWhyNeed, recordEmptyTitle]"
    "isObjectLike ([recordUntitledWhyNeed, recordEmptyTitle] ! 1)"
    "''title'' \<in> set requiredFields"
    "\<not> trimmable recordUntitledWhyNeed" "\<not> aborts recordUntitledWhyNeed"
    by code_simp+
  have v: "expectedDiagnostics 1 ''topic'' (getField ([recordA, recordBlankTopic] ! 1) ''topic'')
           = [cannotBeEmpty 1 ''topic'']"
    "expectedDiagnostics 0 ''topic'' (getField ([recordA, recordBlankTopic] ! 0) ''topic'') = []"
    "expectedDiagnostics 1 ''title''
       (getField ([recordUntitledWhyNeed, recordEmptyTitle] ! 1) ''title'')
     = [missingField 1 ''title'']"
    by code_simp+
  from required_field_diagnostics
         [where JSON_parse = exampleParse and content = mixedText and clk = clockZero
            and xs = "[recordA, recordBlankTopic]" and i = 1 and f = "''topic''"]
       required_field_diagnostics
         [where JSON_parse = exampleParse and content = mixedText and clk = clockZero
            and xs = "[recordA, recordBlankTopic]" and i = 0 and f = "''topic''"]
       required_field_diagnostics
         [where JSON_parse = exampleParse and content = untitledWhyNeedText and clk = clockZero
            and xs = "[recordUntitledWhyNeed, recordEmptyTitle]" and i = 1 and f = "''title''"]
       p h g v
  show ?thesis by simp
qed

text \<open>
  The claim as stated fails. A title that is the empty string, and a title that is
  \<^verbatim>\<open>false\<close>, are both reported as missing; and a record that lacks its keyword
  receives no diagnostic when the record before it aborts the validation.
\<close>

theorem empty_string_reported_missing:
  "errors (validateJsonContent exampleParse clockZero falsyTitlesText)
     = [missingField 0 ''title'', missingField 1 ''title'']
   \<and> cannotBeEmpty 0 ''title''
       \<notin> set (errors (validateJsonContent exampleParse clockZero falsyTitlesText))
   \<and> mustBeString 1 ''title''
       \<notin> set (errors (validateJsonContent exampleParse clockZero falsyTitlesText))
   \<and> getField recordNoKeyword ''keyword'' = None
   \<and> fieldDiagnostics (errors (validateJsonContent exampleParse clockZero abortedMissingText))
        1 ''keyword'' = []"
  by code_simp

subsection \<open>Duplicate titles\<close>















subsection \<open>Import merge and synchronisation\<close>

lemma newConcepts_unmatched: "newConcepts existing incoming = unmatched existing incoming"
  by (auto simp: newConcepts_def unmatched_def existingTitles_def titleMatches_def list_ex_iff
      intro!: filter_cong)

lemma existingTitles_append:
  "existingTitles (a @ b) = existingTitles a \<union> existingTitles b"
  by (simp add: existingTitles_def)

lemma newConcepts_titles:
  "c \<in> set incoming \<Longrightarrow>
     toLowerCase (c_title c) \<in> existingTitles existing \<union> existingTitles (newConcepts existing incoming)"
  by (auto simp: newConcepts_def existingTitles_def)

lemma newConcepts_again:
  "newConcepts (updatedConcepts existing incoming) incoming = []"
proof -
  have "\<forall>c \<in> set incoming.
          toLowerCase (c_title c) \<in> existingTitles (updatedConcepts existing incoming)"
    using newConcepts_titles [of _ incoming existing]
    by (simp add: updatedConcepts_def existingTitles_append)
  then show ?thesis
    by (simp add: newConcepts_def [of "updatedConcepts existing incoming"] filter_empty_conv)
qed

text \<open>
  Claim C3. The merge of an import keeps the existing records as they are, in front,
  and appends the incoming records whose title matches no existing title
  case-insensitively, so its length is the sum of the two counts; merging the same
  incoming records again changes nothing. This merge is what a valid, non-empty
  validation result makes the import handler store.
\<close>

theorem merge_additive_idempotent:
  "length (updatedConcepts existing incoming)
     = length existing + length (unmatched existing incoming)
   \<and> updatedConcepts existing incoming = existing @ unmatched existing incoming
   \<and> take (length existing) (updatedConcepts existing incoming) = existing
   \<and> updatedConcepts (updatedConcepts existing incoming) incoming
     = updatedConcepts existing incoming
   \<and> (validationResult st = Some r \<and> isValid r \<and> validConcepts r \<noteq> [] \<longrightarrow>
        concepts (handleValidatedImport st) = updatedConcepts (concepts st) (validConcepts r)
        \<and> storedConcepts (handleValidatedImport st)
            = Some (updatedConcepts (concepts st) (validConcepts r)))"
proof -
  have "updatedConcepts (updatedConcepts existing incoming) incoming
        = updatedConcepts existing incoming"
    by (simp add: updatedConcepts_def [of "updatedConcepts existing incoming"] newConcepts_again)
  then show ?thesis
    by (simp add: updatedConcepts_def newConcepts_unmatched handleValidatedImport_def Let_def)
qed

theorem merge_additive_idempotent_witness:
  "concepts (handleValidatedImport stagedImport) = [conceptA, conceptB]
   \<and> updatedConcepts [conceptA] [conceptUpperA, conceptB] = [conceptA, conceptB]
   \<and> updatedConcepts [conceptA, conceptB] [conceptUpperA, conceptB] = [conceptA, conceptB]
   \<and> unmatched [conceptA] [conceptUpperA, conceptB] = [conceptB]"
proof -
  have h: "validationResult stagedImport
           = Some \<lparr> isValid = True, errors = [], validConcepts = [conceptUpperA, conceptB],
                    totalConcepts = 2 \<rparr>"
    "concepts stagedImport = [conceptA]"
    by (simp_all add: stagedImport_def viewA_def emptyView_def)
  have u: "unmatched [conceptA] [conceptUpperA, conceptB] = [conceptB]"
    by code_simp
  note m = merge_additive_idempotent
         [where existing = "[conceptA]" and incoming = "[conceptUpperA, conceptB]"
            and st = stagedImport
            and r = "\<lparr> isValid = True, errors = [], validConcepts = [conceptUpperA, conceptB],
                        totalConcepts = 2 \<rparr>"]
  from m u have a: "updatedConcepts [conceptA] [conceptUpperA, conceptB] = [conceptA, conceptB]"
    by simp
  from m have "updatedConcepts (updatedConcepts [conceptA] [conceptUpperA, conceptB])
                 [conceptUpperA, conceptB]
               = updatedConcepts [conceptA] [conceptUpperA, conceptB]"
    by blast
  with a have b: "updatedConcepts [conceptA, conceptB] [conceptUpperA, conceptB]
                  = [conceptA, conceptB]"
    by simp
  from m h a have "concepts (handleValidatedImport stagedImport) = [conceptA, conceptB]"
    by simp
  with a b u show ?thesis by simp
qed

text \<open>
  Claim C8. A push with no local record shows the `Nothing to sync' toast, marked
  destructive, and changes nothing else: no request is sent, and the record set and
  the cache stay as they are. With a local record the request is sent.
\<close>

theorem push_empty_local_set:
  "(concepts st = [] \<longrightarrow>
      handleSyncToDatabase outcome st = st\<lparr>toasts := toasts st @ [nothingToSync]\<rparr>
      \<and> requests (handleSyncToDatabase outcome st) = requests st
      \<and> concepts (handleSyncToDatabase outcome st) = concepts st
      \<and> storedConcepts (handleSyncToDatabase outcome st) = storedConcepts st)
   \<and> (concepts st \<noteq> [] \<longrightarrow>
      requests (handleSyncToDatabase outcome st)
      = requests st @ [syncRequest ''POST'' (Some (concepts st))])
   \<and> t_title nothingToSync = ''Nothing to sync''
   \<and> t_variant nothingToSync = Some ''destructive''"
  by (simp add: handleSyncToDatabase_def Let_def nothingToSync_def
      split: fetch_outcome.splits)

theorem push_empty_local_set_witness:
  "concepts emptyView = []
   \<and> requests (handleSyncToDatabase (FetchJson emptyRemote) emptyView) = []
   \<and> toasts (handleSyncToDatabase (FetchJson emptyRemote) emptyView) = [nothingToSync]
   \<and> requests (handleSyncToDatabase (FetchJson emptyRemote) viewA)
       = [syncRequest ''POST'' (Some [conceptA])]"
proof -
  have h: "concepts emptyView = []" "requests emptyView = []" "toasts emptyView = []"
    "concepts viewA = [conceptA]" "requests viewA = []"
    by (simp_all add: emptyView_def viewA_def)
  from push_empty_local_set [of emptyView "FetchJson emptyRemote"]
       push_empty_local_set [of viewA "FetchJson emptyRemote"] h
  show ?thesis by simp
qed

text \<open>
  Claim C9. A pull that succeeds with no remote record leaves the record set and the
  cache as they are and shows the `No data found' toast, which is not a failure toast.
  Whatever the outcome, the record set and the cache either stay as they are or are
  both replaced by a remote set that is not empty.
\<close>

theorem pull_empty_remote_set:
  "(r_success result \<and> (case r_concepts result of None \<Rightarrow> True | Some cs \<Rightarrow> cs = []) \<longrightarrow>
      concepts (handleSyncFromDatabase (FetchJson result) st) = concepts st
      \<and> storedConcepts (handleSyncFromDatabase (FetchJson result) st) = storedConcepts st
      \<and> toasts (handleSyncFromDatabase (FetchJson result) st) = toasts st @ [noDataFound])
   \<and> (concepts (handleSyncFromDatabase outcome st) = concepts st
        \<and> storedConcepts (handleSyncFromDatabase outcome st) = storedConcepts st
      \<or> (\<exists>res cs. outcome = FetchJson res \<and> r_success res \<and> r_concepts res = Some cs
            \<and> cs \<noteq> []
            \<and> concepts (handleSyncFromDatabase outcome st) = cs
            \<and> storedConcepts (handleSyncFromDatabase outcome st) = Some cs))
   \<and> t_variant noDataFound = None
   \<and> noDataFound \<noteq> syncFailed m"
  by (auto simp: handleSyncFromDatabase_def Let_def noDataFound_def syncFailed_def
      split: fetch_outcome.splits option.splits)

theorem pull_empty_remote_set_witness:
  "r_success emptyRemote
   \<and> concepts (handleSyncFromDatabase (FetchJson emptyRemote) viewA) = [conceptA]
   \<and> storedConcepts (handleSyncFromDatabase (FetchJson emptyRemote) viewA) = Some [conceptA]
   \<and> toasts (handleSyncFromDatabase (FetchJson emptyRemote) viewA) = [noDataFound]"
proof -
  have h: "r_success emptyRemote" "r_concepts emptyRemote = Some []"
    "concepts viewA = [conceptA]" "storedConcepts viewA = Some [conceptA]" "toasts viewA = []"
    by (simp_all add: emptyRemote_def viewA_def emptyView_def)
  from pull_empty_remote_set [of emptyRemote viewA] h
  show ?thesis by simp
qed

subsection \<open>Replace-all in the store\<close>

lemma firstMissingField_find:
  "c \<noteq> JNull \<Longrightarrow>
     firstMissingField c fs = Inr (find (\<lambda>f. \<not> truthy (getField c f)) fs)"
  by (induction fs) (auto simp: readField_def split: json.splits)

lemma firstInvalid_lacking:
  "list_ex lacksRequired cs \<Longrightarrow> firstInvalid i cs \<noteq> Inr None"
proof (induction cs arbitrary: i)
  case Nil
  then show ?case by simp
next
  case (Cons c rest)
  show ?case
  proof (cases "c = JNull")
    case True
    then show ?thesis by (simp add: requiredFields_def readField_def)
  next
    case False
    show ?thesis
    proof (cases "lacksRequired c")
      case True
      then have "find (\<lambda>f. \<not> truthy (getField c f)) requiredFields \<noteq> None"
        by (auto simp: lacksRequired_def list_ex_iff find_None_iff)
      then obtain f where "find (\<lambda>f. \<not> truthy (getField c f)) requiredFields = Some f"
        by blast
      with False show ?thesis by (simp add: firstMissingField_find)
    next
      case lacking: False
      then have "find (\<lambda>f. \<not> truthy (getField c f)) requiredFields = None"
        by (simp add: lacksRequired_def list_ex_iff find_None_iff)
      with False lacking Cons show ?thesis by (simp add: firstMissingField_find)
    qed
  qed
qed

lemma firstInvalid_returns:
  "JNull \<notin> set cs \<Longrightarrow> \<exists>found. firstInvalid i cs = Inr found"
proof (induction cs arbitrary: i)
  case Nil
  then show ?case by simp
next
  case (Cons c rest)
  then have "c \<noteq> JNull" by auto
  with Cons show ?case
    by (cases "find (\<lambda>f. \<not> truthy (getField c f)) requiredFields")
       (simp_all add: firstMissingField_find)
qed

lemma firstInvalid_passes:
  "\<not> list_ex lacksRequired cs \<Longrightarrow> firstInvalid i cs = Inr None"
proof (induction cs arbitrary: i)
  case Nil
  then show ?case by simp
next
  case (Cons c rest)
  then have lacking: "\<not> lacksRequired c" by simp
  then have "c \<noteq> JNull"
    by (auto simp: lacksRequired_def requiredFields_def getField_def)
  moreover from lacking have "find (\<lambda>f. \<not> truthy (getField c f)) requiredFields = None"
    by (simp add: lacksRequired_def list_ex_iff find_None_iff)
  ultimately show ?case using Cons by (simp add: firstMissingField_find)
qed

lemma reply_status:
  "status (invalidConceptData i f) = 400" "error (invalidConceptData i f) = Some ''Invalid concept data''"
  "\<not> success (invalidConceptData i f)"
  "status (syncedReply n) = 200" "success (syncedReply n)" "count (syncedReply n) = Some n"
  by (simp_all add: invalidConceptData_def syncedReply_def)

lemma getField_concepts_nonnull:
  "getField parsed k = Some v \<Longrightarrow> parsed \<noteq> JNull"
  by (auto simp: getField_def)

lemma POST_sync_validated:
  assumes "connectThrows db = None" and "getField parsed ''concepts'' = Some (JArray cs)"
  shows "POST_sync db (Inr parsed) store =
     (case firstInvalid 0 cs of
        Inl e \<Rightarrow> (syncErrorReply (errorMessageOf e), store)
      | Inr (Some (i, field)) \<Rightarrow> (invalidConceptData i field, store)
      | Inr None \<Rightarrow>
          (case deleteThrows db of
             Some m \<Rightarrow> (syncErrorReply m, store)
           | None \<Rightarrow>
               (if length cs > 0
                then (case insertMany db cs of
                        Inl (m, written) \<Rightarrow> (syncErrorReply m, written)
                      | Inr written \<Rightarrow> (syncedReply (length cs), written))
                else (syncedReply (length cs), []))))"
  using assms getField_concepts_nonnull [OF assms(2)]
  by (cases parsed) (simp_all add: POST_sync_def)

lemma firstInvalid_found:
  "k < length cs \<Longrightarrow> lacksRequired (cs ! k) \<Longrightarrow> JNull \<notin> set (take (Suc k) cs) \<Longrightarrow>
     \<exists>j f. firstInvalid i cs = Inr (Some (j, f))"
proof (induction cs arbitrary: i k)
  case Nil
  then show ?case by simp
next
  case (Cons c rest)
  then have nonnull: "c \<noteq> JNull" by auto
  show ?case
  proof (cases "find (\<lambda>f. \<not> truthy (getField c f)) requiredFields")
    case (Some f)
    with nonnull show ?thesis by (simp add: firstMissingField_find)
  next
    case None
    then have "\<not> lacksRequired c"
      by (simp add: lacksRequired_def list_ex_iff find_None_iff)
    with Cons.prems(2) obtain m where k: "k = Suc m" by (cases k) auto
    with Cons.prems have "m < length rest" "lacksRequired (rest ! m)"
      "JNull \<notin> set (take (Suc m) rest)"
      by simp_all
    from Cons.IH [OF this, of "Suc i"] None nonnull show ?thesis
      by (simp add: firstMissingField_find)
  qed
qed

text \<open>
  Claim C10, as amended. When the connection and \<^verbatim>\<open>deleteMany\<close> do not throw, a
  request whose \<^verbatim>\<open>concepts\<close> is the empty array empties the collection, inserts
  nothing and is answered with success and count 0. The required fields are checked
  before anything is deleted: when some record of the request lacks one, the
  collection is left as it is and the reply is not a success; with the connection
  made, it is the 400 reply `Invalid concept data' when no element of the request up
  to that record is \<^verbatim>\<open>null\<close>.
\<close>

theorem replace_all_empty_and_invalid:
  "(connectThrows db = None \<and> deleteThrows db = None
      \<and> getField parsed ''concepts'' = Some (JArray []) \<longrightarrow>
      POST_sync db (Inr parsed) store = (syncedReply 0, [])
      \<and> success (syncedReply 0) \<and> count (syncedReply 0) = Some 0)
   \<and> (getField parsed ''concepts'' = Some (JArray cs) \<and> list_ex lacksRequired cs \<longrightarrow>
      snd (POST_sync db (Inr parsed) store) = store
      \<and> \<not> success (fst (POST_sync db (Inr parsed) store)))
   \<and> (connectThrows db = None \<and> getField parsed ''concepts'' = Some (JArray cs)
      \<and> k < length cs \<and> lacksRequired (cs ! k) \<and> JNull \<notin> set (take (Suc k) cs) \<longrightarrow>
      status (fst (POST_sync db (Inr parsed) store)) = 400
      \<and> error (fst (POST_sync db (Inr parsed) store)) = Some ''Invalid concept data'')"
proof -
  have empty: "POST_sync db (Inr parsed) store = (syncedReply 0, [])"
    if "connectThrows db = None" "deleteThrows db = None"
      "getField parsed ''concepts'' = Some (JArray [])"
    using POST_sync_validated [OF that(1,3), of store] that(2) by simp
  have invalid: "snd (POST_sync db (Inr parsed) store) = store
                 \<and> \<not> success (fst (POST_sync db (Inr parsed) store))"
    if "getField parsed ''concepts'' = Some (JArray cs)" "list_ex lacksRequired cs"
  proof (cases "connectThrows db")
    case None
    from POST_sync_validated [OF None that(1), of store] firstInvalid_lacking [OF that(2), of 0]
    show ?thesis
      by (auto simp: reply_status syncErrorReply_def split: sum.splits option.splits)
  next
    case (Some m)
    then show ?thesis by (simp add: POST_sync_def syncErrorReply_def)
  qed
  have bad_request: "status (fst (POST_sync db (Inr parsed) store)) = 400
                     \<and> error (fst (POST_sync db (Inr parsed) store)) = Some ''Invalid concept data''"
    if "connectThrows db = None" "getField parsed ''concepts'' = Some (JArray cs)"
      "k < length cs" "lacksRequired (cs ! k)" "JNull \<notin> set (take (Suc k) cs)"
    using POST_sync_validated [OF that(1,2), of store] firstInvalid_found [OF that(3,4,5), of 0]
    by (auto simp: reply_status)
  from empty invalid bad_request show ?thesis
    by (simp add: reply_status)
qed

theorem replace_all_empty_and_invalid_witness:
  "POST_sync plainDriver (Inr (JObject [(''concepts'', JArray [])])) [recordA]
     = (syncedReply 0, [])
   \<and> count (syncedReply 0) = Some 0
   \<and> list_ex lacksRequired [recordA, recordNoKeyword]
   \<and> snd (POST_sync plainDriver (Inr (JObject [(''concepts'', JArray [recordA, recordNoKeyword])]))
            [recordA]) = [recordA]
   \<and> status (fst (POST_sync plainDriver
                     (Inr (JObject [(''concepts'', JArray [recordA, recordNoKeyword])]))
                     [recordA])) = 400"
proof -
  have d: "connectThrows plainDriver = None" "deleteThrows plainDriver = None"
    by (simp_all add: plainDriver_def)
  have g: "getField (JObject [(''concepts'', JArray [])]) ''concepts'' = Some (JArray [])"
    "getField (JObject [(''concepts'', JArray [recordA, recordNoKeyword])]) ''concepts''
     = Some (JArray [recordA, recordNoKeyword])"
    by (simp_all add: getField_def)
  have h: "list_ex lacksRequired [recordA, recordNoKeyword]"
    "(1::nat) < length [recordA, recordNoKeyword]"
    "lacksRequired ([recordA, recordNoKeyword] ! 1)"
    "JNull \<notin> set (take (Suc 1) [recordA, recordNoKeyword])"
    by code_simp+
  from replace_all_empty_and_invalid
         [where db = plainDriver and parsed = "JObject [(''concepts'', JArray [])]"
            and store = "[recordA]" and cs = "[]"] d g(1)
  have a: "POST_sync plainDriver (Inr (JObject [(''concepts'', JArray [])])) [recordA]
           = (syncedReply 0, [])"
    "count (syncedReply 0) = Some 0"
    by blast+
  from replace_all_empty_and_invalid
         [where db = plainDriver
            and parsed = "JObject [(''concepts'', JArray [recordA, recordNoKeyword])]"
            and cs = "[recordA, recordNoKeyword]" and store = "[recordA]" and k = 1]
       d g(2) h
  have b: "snd (POST_sync plainDriver
                 (Inr (JObject [(''concepts'', JArray [recordA, recordNoKeyword])]))
                 [recordA]) = [recordA]"
    "status (fst (POST_sync plainDriver
                     (Inr (JObject [(''concepts'', JArray [recordA, recordNoKeyword])]))
                     [recordA])) = 400"
    by blast+
  from a b h(1) show ?thesis by simp
qed

text \<open>
  The claim as stated fails: in a request whose first element is \<^verbatim>\<open>null\<close> and whose
  second lacks its keyword, reading a property of \<^verbatim>\<open>null\<close> throws and the reply is
  500, the collection left as it is.
\<close>

theorem null_record_internal_error:
  "lacksRequired recordNoKeyword
   \<and> status (fst (POST_sync plainDriver
                     (Inr (JObject [(''concepts'', JArray [JNull, recordNoKeyword])]))
                     [recordA])) = 500
   \<and> snd (POST_sync plainDriver (Inr (JObject [(''concepts'', JArray [JNull, recordNoKeyword])]))
            [recordA]) = [recordA]"
  by code_simp

end
